theory Spec2Isabelle
  imports Main "HOL-Library.Word"
begin

unbundle bit_operations_syntax

section \<open>Machine integers and constants (semu.h)\<close>

type_synonym u8 = "8 word"
type_synonym u16 = "16 word"
type_synonym u32 = "32 word"
type_synonym u64 = "64 word"

text \<open>
  \<open>exception_t\<close> and \<open>interrupt_t\<close> are C enums whose values are also produced by
  arithmetic (\<open>8 + cpu->mode\<close>) and converted to \<open>uint64_t\<close>; they are modelled by
  their integer values.
\<close>

type_synonym exception_t = int
type_synonym interrupt_t = int

definition OK :: exception_t where "OK = - 1"
definition INSTRUCTION_ADDRESS_MISALIGNED :: exception_t where "INSTRUCTION_ADDRESS_MISALIGNED = 0"
definition INSTRUCTION_ACCESS_FAULT :: exception_t where "INSTRUCTION_ACCESS_FAULT = 1"
definition ILLEGAL_INSTRUCTION :: exception_t where "ILLEGAL_INSTRUCTION = 2"
definition BREAKPOINT :: exception_t where "BREAKPOINT = 3"
definition LOAD_ADDRESS_MISALIGNED :: exception_t where "LOAD_ADDRESS_MISALIGNED = 4"
definition LOAD_ACCESS_FAULT :: exception_t where "LOAD_ACCESS_FAULT = 5"
definition STORE_AMO_ADDRESS_MISALIGNED :: exception_t where "STORE_AMO_ADDRESS_MISALIGNED = 6"
definition STORE_AMO_ACCESS_FAULT :: exception_t where "STORE_AMO_ACCESS_FAULT = 7"
definition INSTRUCTION_PAGE_FAULT :: exception_t where "INSTRUCTION_PAGE_FAULT = 12"
definition LOAD_PAGE_FAULT :: exception_t where "LOAD_PAGE_FAULT = 13"
definition STORE_AMO_PAGE_FAULT :: exception_t where "STORE_AMO_PAGE_FAULT = 15"

lemmas exception_defs =
  OK_def INSTRUCTION_ADDRESS_MISALIGNED_def INSTRUCTION_ACCESS_FAULT_def
  ILLEGAL_INSTRUCTION_def BREAKPOINT_def LOAD_ADDRESS_MISALIGNED_def LOAD_ACCESS_FAULT_def
  STORE_AMO_ADDRESS_MISALIGNED_def STORE_AMO_ACCESS_FAULT_def INSTRUCTION_PAGE_FAULT_def
  LOAD_PAGE_FAULT_def STORE_AMO_PAGE_FAULT_def

definition NONE :: interrupt_t where "NONE = - 1"
definition SUPERVISOR_SOFTWARE_INTERRUPT :: interrupt_t where "SUPERVISOR_SOFTWARE_INTERRUPT = 1"
definition MACHINE_SOFTWARE_INTERRUPT :: interrupt_t where "MACHINE_SOFTWARE_INTERRUPT = 3"
definition SUPERVISOR_TIMER_INTERRUPT :: interrupt_t where "SUPERVISOR_TIMER_INTERRUPT = 5"
definition MACHINE_TIMER_INTERRUPT :: interrupt_t where "MACHINE_TIMER_INTERRUPT = 7"
definition SUPERVISOR_EXTERNAL_INTERRUPT :: interrupt_t where "SUPERVISOR_EXTERNAL_INTERRUPT = 9"
definition MACHINE_EXTERNAL_INTERRUPT :: interrupt_t where "MACHINE_EXTERNAL_INTERRUPT = 11"

lemmas interrupt_defs =
  NONE_def SUPERVISOR_SOFTWARE_INTERRUPT_def MACHINE_SOFTWARE_INTERRUPT_def
  SUPERVISOR_TIMER_INTERRUPT_def MACHINE_TIMER_INTERRUPT_def
  SUPERVISOR_EXTERNAL_INTERRUPT_def MACHINE_EXTERNAL_INTERRUPT_def

definition RAM_SIZE :: u64 where "RAM_SIZE = 1024 * 1024 * 8"
definition RAM_BASE :: u64 where "RAM_BASE = 0x80000000"

definition CLINT_BASE :: u64 where "CLINT_BASE = 0x2000000"
definition CLINT_SIZE :: u64 where "CLINT_SIZE = 0x10000"
definition CLINT_MTIMECMP :: u64 where "CLINT_MTIMECMP = CLINT_BASE + 0x4000"
definition CLINT_MTIME :: u64 where "CLINT_MTIME = CLINT_BASE + 0xbff8"

definition PLIC_BASE :: u64 where "PLIC_BASE = 0xC000000"
definition PLIC_SIZE :: u64 where "PLIC_SIZE = 0x4000000"
definition PLIC_PENDING :: u64 where "PLIC_PENDING = PLIC_BASE + 0x1000"
definition PLIC_SENABLE :: u64 where "PLIC_SENABLE = PLIC_BASE + 0x2080"
definition PLIC_SPRIORITY :: u64 where "PLIC_SPRIORITY = PLIC_BASE + 0x201000"
definition PLIC_SCLAIM :: u64 where "PLIC_SCLAIM = PLIC_BASE + 0x201004"

definition UART_BASE :: u64 where "UART_BASE = 0x10000000"
definition UART_SIZE :: u64 where "UART_SIZE = 0x100"
definition UART_RHR :: u64 where "UART_RHR = UART_BASE"
definition UART_THR :: u64 where "UART_THR = UART_BASE"
definition UART_LCR :: u64 where "UART_LCR = UART_BASE + 3"
definition UART_LSR :: u64 where "UART_LSR = UART_BASE + 5"
definition UART_LSR_RX :: u8 where "UART_LSR_RX = 1"
definition UART_LSR_TX :: u8 where "UART_LSR_TX = push_bit 5 1"

definition DISK_BASE :: u64 where "DISK_BASE = 0x10001000"
definition DISK_SIZE :: u64 where "DISK_SIZE = 0x100"
definition DISK_MAGIC :: u64 where "DISK_MAGIC = DISK_BASE + 0x000"
definition DISK_VERSION :: u64 where "DISK_VERSION = DISK_BASE + 0x004"
definition DISK_NOTIFY :: u64 where "DISK_NOTIFY = DISK_BASE + 0x008"
definition DISK_DIRECTION :: u64 where "DISK_DIRECTION = DISK_BASE + 0x00C"
definition DISK_BUFFER_ADDR_HIGH :: u64 where "DISK_BUFFER_ADDR_HIGH = DISK_BASE + 0x010"
definition DISK_BUFFER_ADDR_LOW :: u64 where "DISK_BUFFER_ADDR_LOW = DISK_BASE + 0x014"
definition DISK_BUFFER_LEN_HIGH :: u64 where "DISK_BUFFER_LEN_HIGH = DISK_BASE + 0x018"
definition DISK_BUFFER_LEN_LOW :: u64 where "DISK_BUFFER_LEN_LOW = DISK_BASE + 0x01C"
definition DISK_SECTOR :: u64 where "DISK_SECTOR = DISK_BASE + 0x020"

text \<open>
  Modelled from the spec: \<open>DISK_DONE\<close> is used by semu.c but the semu.h under src/ does
  not define it; the MMIO map of the spec places the block device's \<open>done\<close> register at
  offset 0x24.
\<close>

definition DISK_DONE :: u64 where "DISK_DONE = DISK_BASE + 0x024"

lemmas mmio_defs =
  RAM_SIZE_def RAM_BASE_def CLINT_BASE_def CLINT_SIZE_def CLINT_MTIMECMP_def CLINT_MTIME_def
  PLIC_BASE_def PLIC_SIZE_def PLIC_PENDING_def PLIC_SENABLE_def PLIC_SPRIORITY_def
  PLIC_SCLAIM_def UART_BASE_def UART_SIZE_def UART_RHR_def UART_THR_def UART_LCR_def
  UART_LSR_def UART_LSR_RX_def UART_LSR_TX_def DISK_BASE_def DISK_SIZE_def DISK_MAGIC_def
  DISK_VERSION_def DISK_NOTIFY_def DISK_DIRECTION_def DISK_BUFFER_ADDR_HIGH_def
  DISK_BUFFER_ADDR_LOW_def DISK_BUFFER_LEN_HIGH_def DISK_BUFFER_LEN_LOW_def DISK_SECTOR_def
  DISK_DONE_def

section \<open>RAM\<close>

text \<open>
  \<open>struct ram\<close> holds a pointer to a buffer of \<open>RAM_SIZE\<close> bytes. The buffer is a
  function from the \<open>uint64_t\<close> index to the byte stored there. An access whose index is
  not below \<open>RAM_SIZE\<close> leaves the buffer; C gives it no meaning, and the model returns
  \<open>None\<close> for it. Throughout, \<open>None\<close> stands for "the C program has no defined result
  here, or has left through \<open>fatal\<close>".
\<close>

record ram =
  ram_data :: "u64 \<Rightarrow> u8"

definition ram_idx_ok :: "u64 \<Rightarrow> bool" where
  "ram_idx_ok i = (i < RAM_SIZE)"

text \<open>The four entry points of the fall-through \<open>switch\<close>: which bytes the case touches.\<close>

definition ram_ok8 :: "u64 \<Rightarrow> bool" where
  "ram_ok8 index = ram_idx_ok (index + 0)"

definition ram_ok16 :: "u64 \<Rightarrow> bool" where
  "ram_ok16 index = (ram_idx_ok (index + 1) \<and> ram_ok8 index)"

definition ram_ok32 :: "u64 \<Rightarrow> bool" where
  "ram_ok32 index = (ram_idx_ok (index + 3) \<and> ram_idx_ok (index + 2) \<and> ram_ok16 index)"

definition ram_ok64 :: "u64 \<Rightarrow> bool" where
  "ram_ok64 index =
     (ram_idx_ok (index + 7) \<and> ram_idx_ok (index + 6) \<and> ram_idx_ok (index + 5) \<and>
      ram_idx_ok (index + 4) \<and> ram_ok32 index)"

definition ram_load8 :: "(u64 \<Rightarrow> u8) \<Rightarrow> u64 \<Rightarrow> u64 \<Rightarrow> u64" where
  "ram_load8 d index tmp = tmp OR push_bit 0 (ucast (d (index + 0)))"

definition ram_load16 :: "(u64 \<Rightarrow> u8) \<Rightarrow> u64 \<Rightarrow> u64 \<Rightarrow> u64" where
  "ram_load16 d index tmp = ram_load8 d index (tmp OR push_bit 8 (ucast (d (index + 1))))"

definition ram_load32 :: "(u64 \<Rightarrow> u8) \<Rightarrow> u64 \<Rightarrow> u64 \<Rightarrow> u64" where
  "ram_load32 d index tmp =
     ram_load16 d index
       ((tmp OR push_bit 24 (ucast (d (index + 3)))) OR push_bit 16 (ucast (d (index + 2))))"

definition ram_load64 :: "(u64 \<Rightarrow> u8) \<Rightarrow> u64 \<Rightarrow> u64 \<Rightarrow> u64" where
  "ram_load64 d index tmp =
     ram_load32 d index
       ((((tmp OR push_bit 56 (ucast (d (index + 7)))) OR push_bit 48 (ucast (d (index + 6))))
          OR push_bit 40 (ucast (d (index + 5)))) OR push_bit 32 (ucast (d (index + 4))))"

definition ram_load :: "ram \<Rightarrow> u64 \<Rightarrow> u64 \<Rightarrow> (exception_t + u64) option" where
  "ram_load r addr sz =
     (let index = addr - RAM_BASE; tmp = 0 in
      if sz = 64 then
        (if ram_ok64 index then Some (Inr (ram_load64 (ram_data r) index tmp)) else None)
      else if sz = 32 then
        (if ram_ok32 index then Some (Inr (ram_load32 (ram_data r) index tmp)) else None)
      else if sz = 16 then
        (if ram_ok16 index then Some (Inr (ram_load16 (ram_data r) index tmp)) else None)
      else if sz = 8 then
        (if ram_ok8 index then Some (Inr (ram_load8 (ram_data r) index tmp)) else None)
      else Some (Inl LOAD_ACCESS_FAULT))"

definition ram_store8 :: "(u64 \<Rightarrow> u8) \<Rightarrow> u64 \<Rightarrow> u64 \<Rightarrow> (u64 \<Rightarrow> u8)" where
  "ram_store8 d index v = d(index + 0 := ucast (drop_bit 0 v AND 0xff))"

definition ram_store16 :: "(u64 \<Rightarrow> u8) \<Rightarrow> u64 \<Rightarrow> u64 \<Rightarrow> (u64 \<Rightarrow> u8)" where
  "ram_store16 d index v = ram_store8 (d(index + 1 := ucast (drop_bit 8 v AND 0xff))) index v"

definition ram_store32 :: "(u64 \<Rightarrow> u8) \<Rightarrow> u64 \<Rightarrow> u64 \<Rightarrow> (u64 \<Rightarrow> u8)" where
  "ram_store32 d index v =
     ram_store16
       (d(index + 3 := ucast (drop_bit 24 v AND 0xff),
          index + 2 := ucast (drop_bit 16 v AND 0xff))) index v"

definition ram_store64 :: "(u64 \<Rightarrow> u8) \<Rightarrow> u64 \<Rightarrow> u64 \<Rightarrow> (u64 \<Rightarrow> u8)" where
  "ram_store64 d index v =
     ram_store32
       (d(index + 7 := ucast (drop_bit 56 v AND 0xff),
          index + 6 := ucast (drop_bit 48 v AND 0xff),
          index + 5 := ucast (drop_bit 40 v AND 0xff),
          index + 4 := ucast (drop_bit 32 v AND 0xff))) index v"

definition ram_store :: "ram \<Rightarrow> u64 \<Rightarrow> u64 \<Rightarrow> u64 \<Rightarrow> (exception_t \<times> ram) option" where
  "ram_store r addr sz v =
     (let index = addr - RAM_BASE in
      if sz = 64 then
        (if ram_ok64 index then Some (OK, r\<lparr>ram_data := ram_store64 (ram_data r) index v\<rparr>)
         else None)
      else if sz = 32 then
        (if ram_ok32 index then Some (OK, r\<lparr>ram_data := ram_store32 (ram_data r) index v\<rparr>)
         else None)
      else if sz = 16 then
        (if ram_ok16 index then Some (OK, r\<lparr>ram_data := ram_store16 (ram_data r) index v\<rparr>)
         else None)
      else if sz = 8 then
        (if ram_ok8 index then Some (OK, r\<lparr>ram_data := ram_store8 (ram_data r) index v\<rparr>)
         else None)
      else Some (STORE_AMO_ACCESS_FAULT, r))"


section \<open>CLINT and PLIC\<close>

record clint =
  mtime :: u64
  mtimecmp :: u64

definition clint_new :: clint where
  "clint_new = \<lparr>mtime = 0, mtimecmp = 0\<rparr>"

definition clint_load :: "clint \<Rightarrow> u64 \<Rightarrow> u64 \<Rightarrow> exception_t + u64" where
  "clint_load c addr sz =
     (if sz \<noteq> 64 then Inl LOAD_ACCESS_FAULT
      else if addr = CLINT_MTIMECMP then Inr (mtimecmp c)
      else if addr = CLINT_MTIME then Inr (mtime c)
      else Inr 0)"

definition clint_store :: "clint \<Rightarrow> u64 \<Rightarrow> u64 \<Rightarrow> u64 \<Rightarrow> exception_t \<times> clint" where
  "clint_store c addr sz v =
     (if sz \<noteq> 64 then (STORE_AMO_ACCESS_FAULT, c)
      else if addr = CLINT_MTIMECMP then (OK, c\<lparr>mtimecmp := v\<rparr>)
      else if addr = CLINT_MTIME then (OK, c\<lparr>mtime := v\<rparr>)
      else (OK, c))"

record plic =
  pending :: u64
  senable :: u64
  spriority :: u64
  sclaim :: u64

definition plic_new :: plic where
  "plic_new = \<lparr>pending = 0, senable = 0, spriority = 0, sclaim = 0\<rparr>"

definition plic_load :: "plic \<Rightarrow> u64 \<Rightarrow> u64 \<Rightarrow> exception_t + u64" where
  "plic_load p addr sz =
     (if sz \<noteq> 32 then Inl LOAD_ACCESS_FAULT
      else if addr = PLIC_PENDING then Inr (pending p)
      else if addr = PLIC_SENABLE then Inr (senable p)
      else if addr = PLIC_SPRIORITY then Inr (spriority p)
      else if addr = PLIC_SCLAIM then Inr (sclaim p)
      else Inr 0)"

definition plic_store :: "plic \<Rightarrow> u64 \<Rightarrow> u64 \<Rightarrow> u64 \<Rightarrow> exception_t \<times> plic" where
  "plic_store p addr sz v =
     (if sz \<noteq> 32 then (STORE_AMO_ACCESS_FAULT, p)
      else if addr = PLIC_PENDING then (OK, p\<lparr>pending := v\<rparr>)
      else if addr = PLIC_SENABLE then (OK, p\<lparr>senable := v\<rparr>)
      else if addr = PLIC_SPRIORITY then (OK, p\<lparr>spriority := v\<rparr>)
      else if addr = PLIC_SCLAIM then (OK, p\<lparr>sclaim := v\<rparr>)
      else (OK, p))"

section \<open>UART\<close>

text \<open>
  \<open>uart_data\<close> is the 256-byte register file, indexed by \<open>addr - UART_BASE\<close>; an index
  that is not below \<open>UART_SIZE\<close> leaves the array (\<open>None\<close>). \<open>tx_stdout\<close> is not a
  field of \<open>struct uart\<close>: it collects the bytes \<open>putchar\<close> has written to the host's
  standard output. The mutex serialises every access, so each function below is one
  atomic step; the input thread is the separate step \<open>uart_thread_recv\<close>.
\<close>

record uart =
  uart_data :: "u64 \<Rightarrow> u8"
  interrupting :: bool
  tx_stdout :: "u8 list"

definition uart_new :: uart where
  "uart_new =
     (let d = (\<lambda>_. 0) :: u64 \<Rightarrow> u8 in
      \<lparr>uart_data = d(UART_LSR - UART_BASE := d (UART_LSR - UART_BASE) OR UART_LSR_TX),
       interrupting = False, tx_stdout = []\<rparr>)"

text \<open>
  One delivery of the input thread \<open>uart_thread_func\<close>: it waits while
  \<open>(data[UART_LSR - UART_BASE] & UART_LSR_RX) == 1\<close>, so the step is enabled only when
  \<open>uart_thread_ready\<close> holds.
\<close>

definition uart_thread_ready :: "uart \<Rightarrow> bool" where
  "uart_thread_ready u = (uart_data u (UART_LSR - UART_BASE) AND UART_LSR_RX \<noteq> 1)"

definition uart_thread_recv :: "uart \<Rightarrow> u8 \<Rightarrow> uart" where
  "uart_thread_recv u c =
     (let u1 = u\<lparr>uart_data := (uart_data u)(0 := c)\<rparr>;
          u2 = u1\<lparr>interrupting := True\<rparr>
      in u2\<lparr>uart_data := (uart_data u2)
            (UART_LSR - UART_BASE := uart_data u2 (UART_LSR - UART_BASE) OR UART_LSR_RX)\<rparr>)"

definition uart_load :: "uart \<Rightarrow> u64 \<Rightarrow> u64 \<Rightarrow> ((exception_t + u64) \<times> uart) option" where
  "uart_load u addr sz =
     (if sz \<noteq> 8 then Some (Inl LOAD_ACCESS_FAULT, u)
      else
        let u1 = (if addr = UART_RHR
                  then u\<lparr>uart_data := (uart_data u)
                         (UART_LSR - UART_BASE :=
                            uart_data u (UART_LSR - UART_BASE) AND NOT UART_LSR_RX)\<rparr>
                  else u)
        in if addr - UART_BASE < UART_SIZE
           then Some (Inr (ucast (uart_data u1 (addr - UART_BASE))), u1)
           else None)"

definition uart_store :: "uart \<Rightarrow> u64 \<Rightarrow> u64 \<Rightarrow> u64 \<Rightarrow> (exception_t \<times> uart) option" where
  "uart_store u addr sz v =
     (if sz \<noteq> 8 then Some (STORE_AMO_ACCESS_FAULT, u)
      else if addr = UART_THR
        then Some (OK, u\<lparr>tx_stdout := tx_stdout u @ [ucast (v AND 0xff)]\<rparr>)
      else if addr - UART_BASE < UART_SIZE
        then Some (OK, u\<lparr>uart_data := (uart_data u)(addr - UART_BASE := ucast (v AND 0xff))\<rparr>)
      else None)"

definition uart_is_interrupting :: "uart \<Rightarrow> bool \<times> uart" where
  "uart_is_interrupting u = (interrupting u, u\<lparr>interrupting := False\<rparr>)"

section \<open>Block device\<close>

text \<open>
  \<open>disk_buf\<close> is the host buffer behind the pointer \<open>vio->disk\<close> and \<open>disk_len\<close> the
  number of bytes it holds (0 when no disk image was given); an access at or beyond
  \<open>disk_len\<close> is \<open>None\<close>.

  Modelled from the spec: the field \<open>done\<close> is used by semu.c but missing from the
  \<open>struct disk\<close> of the semu.h under src/; it is taken to be a 32-bit register like its
  neighbours and is called \<open>disk_done\<close> here.
\<close>

record disk =
  buffer_address_high :: u32
  buffer_address_low :: u32
  buffer_length_high :: u32
  buffer_length_low :: u32
  sector :: u32
  notify :: u32
  direction :: u32
  disk_done :: u32
  disk_buf :: "u64 \<Rightarrow> u8"
  disk_len :: nat

definition disk_new :: "(u64 \<Rightarrow> u8) \<Rightarrow> nat \<Rightarrow> disk" where
  "disk_new buf len =
     \<lparr>buffer_address_high = 0, buffer_address_low = 0, buffer_length_high = 0,
      buffer_length_low = 0, sector = 0, notify = - 1, direction = 0, disk_done = 0,
      disk_buf = buf, disk_len = len\<rparr>"

definition disk_load :: "disk \<Rightarrow> u64 \<Rightarrow> u64 \<Rightarrow> exception_t + u64" where
  "disk_load vio addr sz =
     (if sz \<noteq> 32 then Inl LOAD_ACCESS_FAULT
      else if addr = DISK_MAGIC then Inr 0x666F7864
      else if addr = DISK_VERSION then Inr 0x01
      else if addr = DISK_NOTIFY then Inr (ucast (notify vio))
      else if addr = DISK_DIRECTION then Inr (ucast (direction vio))
      else if addr = DISK_BUFFER_ADDR_HIGH then Inr (ucast (buffer_address_high vio))
      else if addr = DISK_BUFFER_ADDR_LOW then Inr (ucast (buffer_address_low vio))
      else if addr = DISK_BUFFER_LEN_HIGH then Inr (ucast (buffer_length_high vio))
      else if addr = DISK_BUFFER_LEN_LOW then Inr (ucast (buffer_length_low vio))
      else if addr = DISK_SECTOR then Inr (ucast (sector vio))
      else if addr = DISK_DONE then Inr (ucast (disk_done vio))
      else Inr 0)"

definition disk_store :: "disk \<Rightarrow> u64 \<Rightarrow> u64 \<Rightarrow> u64 \<Rightarrow> exception_t \<times> disk" where
  "disk_store vio addr sz v =
     (if sz \<noteq> 32 then (STORE_AMO_ACCESS_FAULT, vio)
      else if addr = DISK_NOTIFY then (OK, vio\<lparr>notify := ucast v\<rparr>)
      else if addr = DISK_DIRECTION then (OK, vio\<lparr>direction := ucast v\<rparr>)
      else if addr = DISK_BUFFER_ADDR_HIGH then (OK, vio\<lparr>buffer_address_high := ucast v\<rparr>)
      else if addr = DISK_BUFFER_ADDR_LOW then (OK, vio\<lparr>buffer_address_low := ucast v\<rparr>)
      else if addr = DISK_BUFFER_LEN_HIGH then (OK, vio\<lparr>buffer_length_high := ucast v\<rparr>)
      else if addr = DISK_BUFFER_LEN_LOW then (OK, vio\<lparr>buffer_length_low := ucast v\<rparr>)
      else if addr = DISK_SECTOR then (OK, vio\<lparr>sector := ucast v\<rparr>)
      else if addr = DISK_DONE then (OK, vio\<lparr>disk_done := ucast v\<rparr>)
      else (OK, vio))"

definition disk_is_interrupting :: "disk \<Rightarrow> bool \<times> disk" where
  "disk_is_interrupting vio =
     (if notify vio \<noteq> - 1 then (True, vio\<lparr>notify := - 1\<rparr>) else (False, vio))"

definition disk_disk_read :: "disk \<Rightarrow> u64 \<Rightarrow> u64 option" where
  "disk_disk_read vio addr =
     (if unat addr < disk_len vio then Some (ucast (disk_buf vio addr)) else None)"

definition disk_disk_write :: "disk \<Rightarrow> u64 \<Rightarrow> u64 \<Rightarrow> disk option" where
  "disk_disk_write vio addr v =
     (if unat addr < disk_len vio
      then Some (vio\<lparr>disk_buf := (disk_buf vio)(addr := ucast v)\<rparr>)
      else None)"

section \<open>Keyboard port\<close>

text \<open>
  keyboard.h and mul128.h are not under src/. What semu.c takes from keyboard.h is
  passed to the model as the record \<open>host\<close>: the constants \<open>KBD_BASE\<close>,
  \<open>KBD_SIZE\<close> and \<open>KBD_GET\<close>. The record also fixes one choice the C text leaves to
  the platform, the value of \<open>x << 32\<close> for a 32-bit \<open>x\<close> in \<open>bus_disk_access\<close>.
  Every theorem below holds for every \<open>host\<close>.

  Modelled from the spec: \<open>key_take\<close> lives in keyboard.c, which is not under src/.
  The spec says the keyboard port returns one queued key code per read, or zero; so
  \<open>key_take\<close> removes the head of the key queue, and yields 0 on an empty queue. The
  queue holds the codes as \<open>kbd_load\<close> sees them after its cast to \<open>uint64_t\<close>.
\<close>

record host =
  KBD_BASE :: u64
  KBD_SIZE :: u64
  KBD_GET :: u64
  shl32_by_32 :: "u32 \<Rightarrow> u32"

definition key_take :: "u64 list \<Rightarrow> u64 \<times> u64 list" where
  "key_take q = (case q of [] \<Rightarrow> (0, []) | c # cs \<Rightarrow> (c, cs))"

text \<open>
  In \<open>kbd_load\<close> the case \<open>KBD_GET\<close> has no \<open>break\<close>: after \<open>*result = key_take()\<close>
  control falls into \<open>default\<close>, which stores 0 over it.
\<close>

definition kbd_load :: "host \<Rightarrow> u64 list \<Rightarrow> u64 \<Rightarrow> u64 \<Rightarrow> (exception_t + u64) \<times> u64 list" where
  "kbd_load h q addr sz =
     (if sz \<noteq> 32 then (Inl LOAD_ACCESS_FAULT, q)
      else if addr = KBD_GET h then
        (let (result, q') = key_take q;
             result = 0
         in (Inr result, q'))
      else (Inr 0, q))"

section \<open>Bus\<close>

text \<open>
  \<open>RANGE_CHECK\<close> casts the 64-bit \<open>(x - minx) | (minx + size - 1 - x)\<close> to \<open>int32_t\<close>
  and tests the sign of that.
\<close>

definition RANGE_CHECK :: "u64 \<Rightarrow> u64 \<Rightarrow> u64 \<Rightarrow> bool" where
  "RANGE_CHECK x minx sz = (0 \<le> sint (ucast ((x - minx) OR (minx + sz - 1 - x)) :: u32))"

text \<open>\<open>kbd_queue\<close> is the key queue kept by keyboard.c; it is not a field of \<open>struct bus\<close>.\<close>

record bus =
  ram :: ram
  clint :: clint
  plic :: plic
  uart :: uart
  disk :: disk
  kbd_queue :: "u64 list"

definition bus_new :: "ram \<Rightarrow> disk \<Rightarrow> u64 list \<Rightarrow> bus" where
  "bus_new r vio q =
     \<lparr>ram = r, clint = clint_new, plic = plic_new, uart = uart_new, disk = vio, kbd_queue = q\<rparr>"

definition bus_load :: "host \<Rightarrow> bus \<Rightarrow> u64 \<Rightarrow> u64 \<Rightarrow> ((exception_t + u64) \<times> bus) option" where
  "bus_load h b addr sz =
     (if RANGE_CHECK addr CLINT_BASE CLINT_SIZE then Some (clint_load (clint b) addr sz, b)
      else if RANGE_CHECK addr PLIC_BASE PLIC_SIZE then Some (plic_load (plic b) addr sz, b)
      else if RANGE_CHECK addr UART_BASE UART_SIZE then
        (case uart_load (uart b) addr sz of
           None \<Rightarrow> None
         | Some (res, u') \<Rightarrow> Some (res, b\<lparr>uart := u'\<rparr>))
      else if RANGE_CHECK addr DISK_BASE DISK_SIZE then Some (disk_load (disk b) addr sz, b)
      else if RANGE_CHECK addr (KBD_BASE h) (KBD_SIZE h) then
        (case kbd_load h (kbd_queue b) addr sz of (res, q') \<Rightarrow> Some (res, b\<lparr>kbd_queue := q'\<rparr>))
      else if RAM_BASE \<le> addr then
        (case ram_load (ram b) addr sz of None \<Rightarrow> None | Some res \<Rightarrow> Some (res, b))
      else Some (Inl LOAD_ACCESS_FAULT, b))"

definition bus_store :: "bus \<Rightarrow> u64 \<Rightarrow> u64 \<Rightarrow> u64 \<Rightarrow> (exception_t \<times> bus) option" where
  "bus_store b addr sz v =
     (if RANGE_CHECK addr CLINT_BASE CLINT_SIZE then
        (case clint_store (clint b) addr sz v of (e, c') \<Rightarrow> Some (e, b\<lparr>clint := c'\<rparr>))
      else if RANGE_CHECK addr PLIC_BASE PLIC_SIZE then
        (case plic_store (plic b) addr sz v of (e, p') \<Rightarrow> Some (e, b\<lparr>plic := p'\<rparr>))
      else if RANGE_CHECK addr UART_BASE UART_SIZE then
        (case uart_store (uart b) addr sz v of
           None \<Rightarrow> None
         | Some (e, u') \<Rightarrow> Some (e, b\<lparr>uart := u'\<rparr>))
      else if RANGE_CHECK addr DISK_BASE DISK_SIZE then
        (case disk_store (disk b) addr sz v of (e, d') \<Rightarrow> Some (e, b\<lparr>disk := d'\<rparr>))
      else if RAM_BASE \<le> addr then
        (case ram_store (ram b) addr sz v of
           None \<Rightarrow> None
         | Some (e, r') \<Rightarrow> Some (e, b\<lparr>ram := r'\<rparr>))
      else Some (STORE_AMO_ACCESS_FAULT, b))"

text \<open>
  \<open>bus_disk_access\<close>. Each register read that is not \<open>OK\<close>, and each failing transfer,
  ends the process through \<open>fatal\<close> (\<open>None\<close>). The registers are read into \<open>uint32_t\<close>
  variables (\<open>bus_load\<close> is handed their addresses as \<open>uint64_t *\<close>; the model keeps
  the low 32 bits of what it stores there); \<open>address_high << 32 | address_low\<close> is
  computed in 32 bits, the shift as the host does it (\<open>shl32_by_32\<close>), and widened
  afterwards. \<open>sector * 512\<close> is a 32-bit product.
\<close>

definition bus_load_u32 :: "host \<Rightarrow> bus \<Rightarrow> u64 \<Rightarrow> (u32 \<times> bus) option" where
  "bus_load_u32 h b addr =
     (case bus_load h b addr 32 of
        Some (Inr v, b') \<Rightarrow> Some (ucast v, b')
      | _ \<Rightarrow> None)"

fun dma_ram_to_disk :: "host \<Rightarrow> bus \<Rightarrow> u64 \<Rightarrow> u32 \<Rightarrow> u64 \<Rightarrow> nat \<Rightarrow> bus option" where
  "dma_ram_to_disk h b address sec i 0 = Some b"
| "dma_ram_to_disk h b address sec i (Suc n) =
     (case bus_load h b (address + i) 8 of
        Some (Inr dat, b1) \<Rightarrow>
          (case disk_disk_write (disk b1) (ucast (sec * 512) + i) dat of
             None \<Rightarrow> None
           | Some d' \<Rightarrow> dma_ram_to_disk h (b1\<lparr>disk := d'\<rparr>) address sec (i + 1) n)
      | _ \<Rightarrow> None)"

fun dma_disk_to_ram :: "bus \<Rightarrow> u64 \<Rightarrow> u32 \<Rightarrow> u64 \<Rightarrow> nat \<Rightarrow> bus option" where
  "dma_disk_to_ram b address sec i 0 = Some b"
| "dma_disk_to_ram b address sec i (Suc n) =
     (case disk_disk_read (disk b) (ucast (sec * 512) + i) of
        None \<Rightarrow> None
      | Some dat \<Rightarrow>
          (case bus_store b (address + i) 8 dat of
             Some (e, b1) \<Rightarrow>
               (if e \<noteq> OK then None else dma_disk_to_ram b1 address sec (i + 1) n)
           | None \<Rightarrow> None))"

definition bus_disk_access :: "host \<Rightarrow> bus \<Rightarrow> bus option" where
  "bus_disk_access h b =
     Option.bind (bus_load_u32 h b DISK_BUFFER_ADDR_HIGH) (\<lambda>(address_high, b1).
     Option.bind (bus_load_u32 h b1 DISK_BUFFER_ADDR_LOW) (\<lambda>(address_low, b2).
     let address = (ucast (shl32_by_32 h address_high OR address_low) :: u64) in
     Option.bind (bus_load_u32 h b2 DISK_BUFFER_LEN_HIGH) (\<lambda>(length_high, b3).
     Option.bind (bus_load_u32 h b3 DISK_BUFFER_LEN_LOW) (\<lambda>(length_low, b4).
     let len = (ucast (shl32_by_32 h length_high OR length_low) :: u64) in
     Option.bind (bus_load_u32 h b4 DISK_SECTOR) (\<lambda>(sec, b5).
     Option.bind (bus_load_u32 h b5 DISK_DIRECTION) (\<lambda>(dir, b6).
     Option.bind
       (if dir = 1 then dma_ram_to_disk h b6 address sec 0 (unat len)
        else dma_disk_to_ram b6 address sec 0 (unat len)) (\<lambda>b7.
     Option.bind (bus_store b7 DISK_DONE 32 0) (\<lambda>(e, b8).
     if e \<noteq> OK then None else Some b8))))))))"


section \<open>Hart state and CSR file\<close>

datatype cpu_mode_t = USER | SUPERVISOR | MACHINE

fun mode_val :: "cpu_mode_t \<Rightarrow> int" where
  "mode_val USER = 0x0"
| "mode_val SUPERVISOR = 0x1"
| "mode_val MACHINE = 0x3"

text \<open>
  \<open>regs\<close> is indexed by the 5-bit register number (kept in a \<open>uint64_t\<close> by the
  decoder) and \<open>csrs\<close> by the 12-bit CSR number (a \<open>uint16_t\<close>); both arrays are large
  enough for every index the decoder produces. \<open>bus\<close> is the state behind the pointer
  \<open>cpu->bus\<close>.
\<close>

record cpu =
  regs :: "u64 \<Rightarrow> u64"
  pc :: u64
  csrs :: "u16 \<Rightarrow> u64"
  mode :: cpu_mode_t
  bus :: bus
  enable_paging :: bool
  pagetable :: u64

definition MSTATUS :: u16 where "MSTATUS = 0x300"
definition MEDELEG :: u16 where "MEDELEG = 0x302"
definition MIDELEG :: u16 where "MIDELEG = 0x303"
definition MIE :: u16 where "MIE = 0x304"
definition MTVEC :: u16 where "MTVEC = 0x305"
definition MEPC :: u16 where "MEPC = 0x341"
definition MCAUSE :: u16 where "MCAUSE = 0x342"
definition MTVAL :: u16 where "MTVAL = 0x343"
definition MIP :: u16 where "MIP = 0x344"
definition SSTATUS :: u16 where "SSTATUS = 0x100"
definition SIE :: u16 where "SIE = 0x104"
definition STVEC :: u16 where "STVEC = 0x105"
definition SEPC :: u16 where "SEPC = 0x141"
definition SCAUSE :: u16 where "SCAUSE = 0x142"
definition STVAL :: u16 where "STVAL = 0x143"
definition SIP :: u16 where "SIP = 0x144"
definition SATP :: u16 where "SATP = 0x180"

lemmas csr_defs =
  MSTATUS_def MEDELEG_def MIDELEG_def MIE_def MTVEC_def MEPC_def MCAUSE_def MTVAL_def MIP_def
  SSTATUS_def SIE_def STVEC_def SEPC_def SCAUSE_def STVAL_def SIP_def SATP_def

definition MIP_SSIP :: u64 where "MIP_SSIP = push_bit 1 1"
definition MIP_MSIP :: u64 where "MIP_MSIP = push_bit 3 1"
definition MIP_STIP :: u64 where "MIP_STIP = push_bit 5 1"
definition MIP_MTIP :: u64 where "MIP_MTIP = push_bit 7 1"
definition MIP_SEIP :: u64 where "MIP_SEIP = push_bit 9 1"
definition MIP_MEIP :: u64 where "MIP_MEIP = push_bit 11 1"

lemmas mip_defs =
  MIP_SSIP_def MIP_MSIP_def MIP_STIP_def MIP_MTIP_def MIP_SEIP_def MIP_MEIP_def

definition PAGE_SIZE :: u64 where "PAGE_SIZE = 4096"

definition IS_ALIGNED :: "u64 \<Rightarrow> u64 \<Rightarrow> bool" where
  "IS_ALIGNED x a = (x AND (a - 1) = 0)"

definition ram_new :: "u8 list \<Rightarrow> ram option" where
  "ram_new code =
     (if length code \<le> unat RAM_SIZE
      then Some \<lparr>ram_data = (\<lambda>i. if unat i < length code then code ! unat i else 0)\<rparr>
      else None)"

definition cpu_new :: "u8 list \<Rightarrow> (u64 \<Rightarrow> u8) \<Rightarrow> nat \<Rightarrow> u64 list \<Rightarrow> cpu option" where
  "cpu_new code dbuf dlen keys =
     (case ram_new code of
        None \<Rightarrow> None
      | Some r \<Rightarrow>
          Some \<lparr>regs = (\<lambda>_. 0)(2 := RAM_BASE + RAM_SIZE), pc = RAM_BASE, csrs = (\<lambda>_. 0),
                mode = MACHINE, bus = bus_new r (disk_new dbuf dlen) keys,
                enable_paging = False, pagetable = 0\<rparr>)"

definition cpu_load_csr :: "cpu \<Rightarrow> u16 \<Rightarrow> u64" where
  "cpu_load_csr c addr =
     (if addr = SIE then csrs c MIE AND csrs c MIDELEG else csrs c addr)"

definition cpu_store_csr :: "cpu \<Rightarrow> u16 \<Rightarrow> u64 \<Rightarrow> cpu" where
  "cpu_store_csr c addr v =
     (if addr = SIE
      then c\<lparr>csrs := (csrs c)
             (MIE := (csrs c MIE AND NOT (csrs c MIDELEG)) OR (v AND csrs c MIDELEG))\<rparr>
      else c\<lparr>csrs := (csrs c)(addr := v)\<rparr>)"

definition cpu_update_paging :: "cpu \<Rightarrow> u16 \<Rightarrow> cpu" where
  "cpu_update_paging c csr_addr =
     (if csr_addr \<noteq> SATP then c
      else
        let c1 = c\<lparr>pagetable := (cpu_load_csr c SATP AND (push_bit 44 1 - 1)) * PAGE_SIZE\<rparr>
        in c1\<lparr>enable_paging := (8 = drop_bit 60 (cpu_load_csr c1 SATP))\<rparr>)"

section \<open>Address translation (Sv39), fetch, load and store\<close>

text \<open>
  The \<open>while (1)\<close> of \<open>cpu_translate\<close> runs at most three times: every pass that does
  not return decrements \<open>level\<close>, and the pass at level 0 returns. \<open>translate_walk\<close> is
  the loop, recursive on \<open>level\<close>; it yields the level and the leaf entry at \<open>break\<close>.
\<close>

fun translate_walk ::
  "host \<Rightarrow> bus \<Rightarrow> u64 list \<Rightarrow> exception_t \<Rightarrow> nat \<Rightarrow> u64 \<Rightarrow>
     ((exception_t + nat \<times> u64) \<times> bus) option" where
  "translate_walk h b vpn e level a =
     (case bus_load h b (a + vpn ! level * 8) 64 of
        None \<Rightarrow> None
      | Some (Inl exc, b') \<Rightarrow> Some (Inl exc, b')
      | Some (Inr pte, b') \<Rightarrow>
          (let v = (pte AND 1 \<noteq> 0);
               r = (drop_bit 1 pte AND 1 \<noteq> 0);
               w = (drop_bit 2 pte AND 1 \<noteq> 0);
               x = (drop_bit 3 pte AND 1 \<noteq> 0)
           in if (\<not> v) \<or> ((\<not> r) \<and> w) then Some (Inl e, b')
              else if r \<or> x then Some (Inr (level, pte), b')
              else
                let a' = (drop_bit 10 pte AND 0x0fffffffffff) * PAGE_SIZE in
                (case level of
                   0 \<Rightarrow> Some (Inl e, b')
                 | Suc l \<Rightarrow> translate_walk h b' vpn e l a')))"

definition cpu_translate ::
  "host \<Rightarrow> cpu \<Rightarrow> u64 \<Rightarrow> exception_t \<Rightarrow> ((exception_t + u64) \<times> cpu) option" where
  "cpu_translate h c addr e =
     (if \<not> enable_paging c then Some (Inr addr, c)
      else
        let vpn = [drop_bit 12 addr AND 0x1ff, drop_bit 21 addr AND 0x1ff,
                   drop_bit 30 addr AND 0x1ff]
        in case translate_walk h (bus c) vpn e (length vpn - 1) (pagetable c) of
             None \<Rightarrow> None
           | Some (Inl exc, b') \<Rightarrow> Some (Inl exc, c\<lparr>bus := b'\<rparr>)
           | Some (Inr (level, pte), b') \<Rightarrow>
               (let ppn = [drop_bit 10 pte AND 0x1ff, drop_bit 19 pte AND 0x1ff,
                           drop_bit 28 pte AND 0x03ffffff];
                    offset = addr AND 0xfff;
                    c' = c\<lparr>bus := b'\<rparr>
                in if level = 0 then
                     Some (Inr (push_bit 12 (drop_bit 10 pte AND 0x0fffffffffff) OR offset), c')
                   else if level = 1 then
                     Some (Inr (push_bit 30 (ppn ! 2) OR push_bit 21 (ppn ! 1) OR
                                push_bit 12 (vpn ! 0) OR offset), c')
                   else if level = 2 then
                     Some (Inr (push_bit 30 (ppn ! 2) OR push_bit 21 (vpn ! 1) OR
                                push_bit 12 (vpn ! 0) OR offset), c')
                   else Some (Inl e, c')))"

definition cpu_fetch :: "host \<Rightarrow> cpu \<Rightarrow> ((exception_t + u64) \<times> cpu) option" where
  "cpu_fetch h c =
     (case cpu_translate h c (pc c) INSTRUCTION_PAGE_FAULT of
        None \<Rightarrow> None
      | Some (Inl e, c1) \<Rightarrow> Some (Inl e, c1)
      | Some (Inr ppc, c1) \<Rightarrow>
          (case bus_load h (bus c1) ppc 32 of
             None \<Rightarrow> None
           | Some (Inl e, b') \<Rightarrow> Some (Inl INSTRUCTION_ACCESS_FAULT, c1\<lparr>bus := b'\<rparr>)
           | Some (Inr insn, b') \<Rightarrow> Some (Inr insn, c1\<lparr>bus := b'\<rparr>)))"

definition cpu_load :: "host \<Rightarrow> cpu \<Rightarrow> u64 \<Rightarrow> u64 \<Rightarrow> ((exception_t + u64) \<times> cpu) option" where
  "cpu_load h c addr sz =
     (case cpu_translate h c addr LOAD_PAGE_FAULT of
        None \<Rightarrow> None
      | Some (Inl e, c1) \<Rightarrow> Some (Inl e, c1)
      | Some (Inr pa, c1) \<Rightarrow>
          (case bus_load h (bus c1) pa sz of
             None \<Rightarrow> None
           | Some (res, b') \<Rightarrow> Some (res, c1\<lparr>bus := b'\<rparr>)))"

definition cpu_store :: "host \<Rightarrow> cpu \<Rightarrow> u64 \<Rightarrow> u64 \<Rightarrow> u64 \<Rightarrow> (exception_t \<times> cpu) option" where
  "cpu_store h c addr sz v =
     (case cpu_translate h c addr STORE_AMO_PAGE_FAULT of
        None \<Rightarrow> None
      | Some (Inl e, c1) \<Rightarrow> Some (e, c1)
      | Some (Inr pa, c1) \<Rightarrow>
          (case bus_store (bus c1) pa sz v of
             None \<Rightarrow> None
           | Some (e, b') \<Rightarrow> Some (e, c1\<lparr>bus := b'\<rparr>)))"

section \<open>Decoder and executor\<close>

text \<open>C conversions: \<open>(int8_t) x\<close>, \<open>(int16_t) x\<close>, \<open>(int32_t) x\<close> stored into a \<open>uint64_t\<close>.\<close>

definition sext8 :: "u64 \<Rightarrow> u64" where
  "sext8 x = scast (ucast x :: u8)"

definition sext16 :: "u64 \<Rightarrow> u64" where
  "sext16 x = scast (ucast x :: u16)"

definition sext32 :: "u64 \<Rightarrow> u64" where
  "sext32 x = scast (ucast x :: u32)"

text \<open>\<open>/\<close> and \<open>%\<close> of C on signed operands: the quotient is truncated towards zero.\<close>

definition c_div :: "int \<Rightarrow> int \<Rightarrow> int" where
  "c_div a b = sgn a * sgn b * (\<bar>a\<bar> div \<bar>b\<bar>)"

definition c_rem :: "int \<Rightarrow> int \<Rightarrow> int" where
  "c_rem a b = a - c_div a b * b"

definition INT64_MIN :: u64 where "INT64_MIN = push_bit 63 1"
definition INT32_MIN :: u32 where "INT32_MIN = push_bit 31 1"
definition UINT64_MAX :: u64 where "UINT64_MAX = - 1"

text \<open>The assignment \<open>cpu->regs[rd] = v\<close>.\<close>

definition reg_write :: "cpu \<Rightarrow> u64 \<Rightarrow> u64 \<Rightarrow> cpu" where
  "reg_write c rd v = c\<lparr>regs := (regs c)(rd := v)\<rparr>"

text \<open>A load case of opcode 0x03: \<open>cpu_load\<close>, return on failure, convert, write \<open>rd\<close>.\<close>

definition load_to_rd ::
  "host \<Rightarrow> cpu \<Rightarrow> u64 \<Rightarrow> u64 \<Rightarrow> u64 \<Rightarrow> (u64 \<Rightarrow> u64) \<Rightarrow> (exception_t \<times> cpu) option" where
  "load_to_rd h c addr sz rd conv =
     (case cpu_load h c addr sz of
        None \<Rightarrow> None
      | Some (Inl e, c1) \<Rightarrow> Some (e, c1)
      | Some (Inr result, c1) \<Rightarrow> Some (OK, reg_write c1 rd (conv result)))"

definition cpu_execute_03 ::
  "host \<Rightarrow> cpu \<Rightarrow> u64 \<Rightarrow> u64 \<Rightarrow> u64 \<Rightarrow> u64 \<Rightarrow> (exception_t \<times> cpu) option" where
  "cpu_execute_03 h c insn rd rs1 funct3 =
     (let imm = (scast (signed_drop_bit 20 (ucast insn :: u32)) :: u64);
          addr = regs c rs1 + imm
      in if funct3 = 0x0 then load_to_rd h c addr 8 rd sext8
         else if funct3 = 0x1 then load_to_rd h c addr 16 rd sext16
         else if funct3 = 0x2 then load_to_rd h c addr 32 rd sext32
         else if funct3 = 0x3 then load_to_rd h c addr 64 rd (\<lambda>result. result)
         else if funct3 = 0x4 then load_to_rd h c addr 8 rd (\<lambda>result. result)
         else if funct3 = 0x5 then load_to_rd h c addr 16 rd (\<lambda>result. result)
         else if funct3 = 0x6 then load_to_rd h c addr 32 rd (\<lambda>result. result)
         else Some (ILLEGAL_INSTRUCTION, c))"

definition cpu_execute_13 ::
  "cpu \<Rightarrow> u64 \<Rightarrow> u64 \<Rightarrow> u64 \<Rightarrow> u64 \<Rightarrow> u64 \<Rightarrow> (exception_t \<times> cpu) option" where
  "cpu_execute_13 c insn rd rs1 funct3 funct7 =
     (let imm = (scast (signed_drop_bit 20 (ucast (insn AND 0xfff00000) :: u32)) :: u64);
          shamt = (ucast (imm AND 0x3f) :: u32)
      in if funct3 = 0x0 then Some (OK, reg_write c rd (regs c rs1 + imm))
         else if funct3 = 0x1 then Some (OK, reg_write c rd (push_bit (unat shamt) (regs c rs1)))
         else if funct3 = 0x2 then
           Some (OK, reg_write c rd (if sint (regs c rs1) < sint imm then 1 else 0))
         else if funct3 = 0x3 then Some (OK, reg_write c rd (if regs c rs1 < imm then 1 else 0))
         else if funct3 = 0x4 then Some (OK, reg_write c rd (regs c rs1 XOR imm))
         else if funct3 = 0x5 then
           (if drop_bit 1 funct7 = 0x00 then
              Some (OK, reg_write c rd (drop_bit (unat shamt) (regs c rs1)))
            else if drop_bit 1 funct7 = 0x10 then
              Some (OK, reg_write c rd (signed_drop_bit (unat shamt) (regs c rs1)))
            else Some (ILLEGAL_INSTRUCTION, c))
         else if funct3 = 0x6 then Some (OK, reg_write c rd (regs c rs1 OR imm))
         else if funct3 = 0x7 then Some (OK, reg_write c rd (regs c rs1 AND imm))
         else Some (ILLEGAL_INSTRUCTION, c))"

definition cpu_execute_1b ::
  "cpu \<Rightarrow> u64 \<Rightarrow> u64 \<Rightarrow> u64 \<Rightarrow> u64 \<Rightarrow> u64 \<Rightarrow> (exception_t \<times> cpu) option" where
  "cpu_execute_1b c insn rd rs1 funct3 funct7 =
     (let imm = (scast (signed_drop_bit 20 (ucast insn :: u32)) :: u64);
          shamt = (ucast (imm AND 0x1f) :: u32)
      in if funct3 = 0x0 then Some (OK, reg_write c rd (sext32 (regs c rs1 + imm)))
         else if funct3 = 0x1 then
           Some (OK, reg_write c rd (sext32 (push_bit (unat shamt) (regs c rs1))))
         else if funct3 = 0x5 then
           (if funct7 = 0x00 then
              Some (OK, reg_write c rd
                (scast (drop_bit (unat shamt) (ucast (regs c rs1) :: u32))))
            else if funct7 = 0x20 then
              Some (OK, reg_write c rd
                (scast (signed_drop_bit (unat shamt) (ucast (regs c rs1) :: u32))))
            else Some (ILLEGAL_INSTRUCTION, c))
         else Some (ILLEGAL_INSTRUCTION, c))"

text \<open>A store case of opcode 0x23.\<close>

definition cpu_execute_23 ::
  "host \<Rightarrow> cpu \<Rightarrow> u64 \<Rightarrow> u64 \<Rightarrow> u64 \<Rightarrow> u64 \<Rightarrow> (exception_t \<times> cpu) option" where
  "cpu_execute_23 h c insn rs1 rs2 funct3 =
     (let imm = (scast (signed_drop_bit 20 (ucast (insn AND 0xfe000000) :: u32)) :: u64) OR
                (drop_bit 7 insn AND 0x1f);
          addr = regs c rs1 + imm
      in if funct3 = 0x0 then cpu_store h c addr 8 (regs c rs2)
         else if funct3 = 0x1 then cpu_store h c addr 16 (regs c rs2)
         else if funct3 = 0x2 then cpu_store h c addr 32 (regs c rs2)
         else if funct3 = 0x3 then cpu_store h c addr 64 (regs c rs2)
         else Some (ILLEGAL_INSTRUCTION, c))"

text \<open>
  The eighteen AMO branches of opcode 0x2f share one shape: alignment check, load of the
  old value \<open>t\<close>, store of the new value, \<open>rd\<close> gets \<open>t\<close> (as \<open>(int32_t) t\<close> for the
  \<open>.w\<close> forms). \<open>amo\<close> is that shape; \<open>newv t src\<close> is the value stored, computed
  from \<open>t\<close> and \<open>cpu->regs[rs2]\<close>.
\<close>

definition amo ::
  "host \<Rightarrow> cpu \<Rightarrow> u64 \<Rightarrow> u64 \<Rightarrow> u64 \<Rightarrow> u64 \<Rightarrow> (u64 \<Rightarrow> u64 \<Rightarrow> u64) \<Rightarrow>
     (exception_t \<times> cpu) option" where
  "amo h c rd rs1 rs2 sz newv =
     (if \<not> IS_ALIGNED (regs c rs1) (if sz = 32 then 4 else 8)
      then Some (LOAD_ADDRESS_MISALIGNED, c)
      else
        case cpu_load h c (regs c rs1) sz of
          None \<Rightarrow> None
        | Some (Inl e, c1) \<Rightarrow> Some (e, c1)
        | Some (Inr t, c1) \<Rightarrow>
            (case cpu_store h c1 (regs c1 rs1) sz (newv t (regs c1 rs2)) of
               None \<Rightarrow> None
             | Some (e, c2) \<Rightarrow>
                 if e \<noteq> OK then Some (e, c2)
                 else Some (OK, reg_write c2 rd (if sz = 32 then sext32 t else t))))"

definition MIN_i32 :: "u64 \<Rightarrow> u64 \<Rightarrow> u64" where
  "MIN_i32 t src =
     scast (if sint (ucast t :: u32) < sint (ucast src :: u32)
            then (ucast t :: u32) else ucast src)"

definition MAX_i32 :: "u64 \<Rightarrow> u64 \<Rightarrow> u64" where
  "MAX_i32 t src =
     scast (if sint (ucast t :: u32) > sint (ucast src :: u32)
            then (ucast t :: u32) else ucast src)"

definition MIN_u32 :: "u64 \<Rightarrow> u64 \<Rightarrow> u64" where
  "MIN_u32 t src =
     ucast (if (ucast t :: u32) < ucast src then (ucast t :: u32) else ucast src)"

definition MAX_u32 :: "u64 \<Rightarrow> u64 \<Rightarrow> u64" where
  "MAX_u32 t src =
     ucast (if (ucast t :: u32) > ucast src then (ucast t :: u32) else ucast src)"

definition MIN_i64 :: "u64 \<Rightarrow> u64 \<Rightarrow> u64" where
  "MIN_i64 t src = (if sint t < sint src then t else src)"

definition MAX_i64 :: "u64 \<Rightarrow> u64 \<Rightarrow> u64" where
  "MAX_i64 t src = (if sint t > sint src then t else src)"

definition MIN_u64 :: "u64 \<Rightarrow> u64 \<Rightarrow> u64" where
  "MIN_u64 t src = (if t < src then t else src)"

definition MAX_u64 :: "u64 \<Rightarrow> u64 \<Rightarrow> u64" where
  "MAX_u64 t src = (if t > src then t else src)"

definition cpu_execute_2f ::
  "host \<Rightarrow> cpu \<Rightarrow> u64 \<Rightarrow> u64 \<Rightarrow> u64 \<Rightarrow> u64 \<Rightarrow> u64 \<Rightarrow> (exception_t \<times> cpu) option" where
  "cpu_execute_2f h c rd rs1 rs2 funct3 funct7 =
     (let funct5 = drop_bit 2 (funct7 AND 0x7c)
      in if funct3 = 0x2 \<and> funct5 = 0x00 then amo h c rd rs1 rs2 32 (\<lambda>t src. t + src)
         else if funct3 = 0x2 \<and> funct5 = 0x01 then amo h c rd rs1 rs2 32 (\<lambda>t src. src)
         else if funct3 = 0x2 \<and> funct5 = 0x04 then amo h c rd rs1 rs2 32 (\<lambda>t src. t XOR src)
         else if funct3 = 0x2 \<and> funct5 = 0x08 then amo h c rd rs1 rs2 32 (\<lambda>t src. t OR src)
         else if funct3 = 0x2 \<and> funct5 = 0x0c then amo h c rd rs1 rs2 32 (\<lambda>t src. t AND src)
         else if funct3 = 0x2 \<and> funct5 = 0x10 then amo h c rd rs1 rs2 32 MIN_i32
         else if funct3 = 0x2 \<and> funct5 = 0x14 then amo h c rd rs1 rs2 32 MAX_i32
         else if funct3 = 0x2 \<and> funct5 = 0x18 then amo h c rd rs1 rs2 32 MIN_u32
         else if funct3 = 0x2 \<and> funct5 = 0x1c then amo h c rd rs1 rs2 32 MAX_u32
         else if funct3 = 0x3 \<and> funct5 = 0x00 then amo h c rd rs1 rs2 64 (\<lambda>t src. t + src)
         else if funct3 = 0x3 \<and> funct5 = 0x01 then amo h c rd rs1 rs2 64 (\<lambda>t src. src)
         else if funct3 = 0x3 \<and> funct5 = 0x04 then amo h c rd rs1 rs2 64 (\<lambda>t src. t XOR src)
         else if funct3 = 0x3 \<and> funct5 = 0x08 then amo h c rd rs1 rs2 64 (\<lambda>t src. t OR src)
         else if funct3 = 0x3 \<and> funct5 = 0x0c then amo h c rd rs1 rs2 64 (\<lambda>t src. t AND src)
         else if funct3 = 0x3 \<and> funct5 = 0x10 then amo h c rd rs1 rs2 64 MIN_i64
         else if funct3 = 0x3 \<and> funct5 = 0x14 then amo h c rd rs1 rs2 64 MAX_i64
         else if funct3 = 0x3 \<and> funct5 = 0x18 then amo h c rd rs1 rs2 64 MIN_u64
         else if funct3 = 0x3 \<and> funct5 = 0x1c then amo h c rd rs1 rs2 64 MAX_u64
         else Some (ILLEGAL_INSTRUCTION, c))"

text \<open>
  Opcodes 0x33 and 0x3b write one value to \<open>rd\<close> or return \<open>ILLEGAL_INSTRUCTION\<close>.
  \<open>op_33\<close> and \<open>op_3b\<close> compute that value from \<open>a = cpu->regs[rs1]\<close> and
  \<open>b = cpu->regs[rs2]\<close>. The 128-bit products of \<open>mulh\<close>, \<open>mulhsu\<close> and \<open>mulhu\<close>
  are taken over the integers. A C division whose divisor is zero has no defined result
  (\<open>None\<close>); \<open>mulw\<close> multiplies two \<open>int32_t\<close>, modelled with wrap-around.
\<close>

definition op_33 :: "u64 \<Rightarrow> u64 \<Rightarrow> u64 \<Rightarrow> u64 \<Rightarrow> (exception_t + u64) option" where
  "op_33 funct3 funct7 a b =
     (let shamt = (ucast (b AND 0x3f) :: u32)
      in if funct3 = 0x0 \<and> funct7 = 0x00 then Some (Inr (a + b))
         else if funct3 = 0x0 \<and> funct7 = 0x01 then Some (Inr (a * b))
         else if funct3 = 0x0 \<and> funct7 = 0x20 then Some (Inr (a - b))
         else if funct3 = 0x1 \<and> funct7 = 0x00 then Some (Inr (push_bit (unat shamt) a))
         else if funct3 = 0x1 \<and> funct7 = 0x01 then
           Some (Inr (word_of_int ((sint a * sint b) div 2 ^ 64)))
         else if funct3 = 0x2 \<and> funct7 = 0x00 then
           Some (Inr (if sint a < sint b then 1 else 0))
         else if funct3 = 0x2 \<and> funct7 = 0x01 then
           Some (Inr (word_of_int ((((sint a mod 2 ^ 128) * uint b) mod 2 ^ 128) div 2 ^ 64)))
         else if funct3 = 0x3 \<and> funct7 = 0x00 then Some (Inr (if a < b then 1 else 0))
         else if funct3 = 0x3 \<and> funct7 = 0x01 then
           Some (Inr (word_of_int ((uint a * uint b) div 2 ^ 64)))
         else if funct3 = 0x4 \<and> funct7 = 0x00 then Some (Inr (a XOR b))
         else if funct3 = 0x4 \<and> funct7 = 0x01 then
           (if sint b = 0 then Some (Inr (- 1))
            else if a = INT64_MIN \<and> sint b = - 1 then Some (Inr INT64_MIN)
            else Some (Inr (word_of_int (c_div (sint a) (sint b)))))
         else if funct3 = 0x5 \<and> funct7 = 0x00 then Some (Inr (drop_bit (unat shamt) a))
         else if funct3 = 0x5 \<and> funct7 = 0x01 then
           Some (Inr (if b = 0 then UINT64_MAX else a div b))
         else if funct3 = 0x5 \<and> funct7 = 0x20 then
           Some (Inr (signed_drop_bit (unat shamt) a))
         else if funct3 = 0x6 \<and> funct7 = 0x01 then
           (if b = 0 then Some (Inr a)
            else if a = INT64_MIN \<and> sint b = - 1 then Some (Inr 0)
            else Some (Inr (word_of_int (c_rem (sint a) (sint b)))))
         else if funct3 = 0x6 \<and> funct7 = 0x00 then Some (Inr (a OR b))
         else if funct3 = 0x7 \<and> funct7 = 0x00 then Some (Inr (a AND b))
         else if funct3 = 0x7 \<and> funct7 = 0x01 then Some (Inr (if b = 0 then a else a mod b))
         else Some (Inl ILLEGAL_INSTRUCTION))"

definition op_3b :: "u64 \<Rightarrow> u64 \<Rightarrow> u64 \<Rightarrow> u64 \<Rightarrow> (exception_t + u64) option" where
  "op_3b funct3 funct7 a b =
     (let shamt = (ucast (b AND 0x1f) :: u32);
          a32 = (ucast a :: u32);
          b32 = (ucast b :: u32)
      in if funct3 = 0x0 \<and> funct7 = 0x00 then Some (Inr (sext32 (a + b)))
         else if funct3 = 0x0 \<and> funct7 = 0x01 then Some (Inr (scast (a32 * b32)))
         else if funct3 = 0x0 \<and> funct7 = 0x20 then Some (Inr (sext32 (a - b)))
         else if funct3 = 0x1 \<and> funct7 = 0x00 then
           Some (Inr (scast (push_bit (unat shamt) a32)))
         else if funct3 = 0x4 \<and> funct7 = 0x01 then
           (if b = 0 then Some (Inr (- 1))
            else if a32 = INT32_MIN \<and> sint b32 = - 1 then Some (Inr (scast INT32_MIN))
            else if b32 = 0 then None
            else Some (Inr (scast (word_of_int (c_div (sint a32) (sint b32)) :: u32))))
         else if funct3 = 0x5 \<and> funct7 = 0x00 then
           Some (Inr (scast (drop_bit (unat shamt) a32)))
         else if funct3 = 0x5 \<and> funct7 = 0x01 then
           (if b = 0 then Some (Inr UINT64_MAX)
            else if b32 = 0 then None
            else Some (Inr (scast (a32 div b32))))
         else if funct3 = 0x5 \<and> funct7 = 0x20 then
           Some (Inr (scast (signed_drop_bit (unat shamt) a32)))
         else if funct3 = 0x6 \<and> funct7 = 0x01 then
           (if b = 0 then Some (Inr a)
            else if a32 = INT32_MIN \<and> sint b32 = - 1 then Some (Inr 0)
            else if b32 = 0 then None
            else Some (Inr (scast (word_of_int (c_rem (sint a32) (sint b32)) :: u32))))
         else if funct3 = 0x7 \<and> funct7 = 0x01 then
           (if b = 0 then Some (Inr a)
            else if b32 = 0 then None
            else Some (Inr (scast (a32 mod b32))))
         else Some (Inl ILLEGAL_INSTRUCTION))"

definition op_to_rd :: "cpu \<Rightarrow> u64 \<Rightarrow> (exception_t + u64) option \<Rightarrow> (exception_t \<times> cpu) option" where
  "op_to_rd c rd res =
     (case res of
        None \<Rightarrow> None
      | Some (Inl e) \<Rightarrow> Some (e, c)
      | Some (Inr v) \<Rightarrow> Some (OK, reg_write c rd v))"

definition cpu_execute_63 ::
  "cpu \<Rightarrow> u64 \<Rightarrow> u64 \<Rightarrow> u64 \<Rightarrow> u64 \<Rightarrow> (exception_t \<times> cpu) option" where
  "cpu_execute_63 c insn rs1 rs2 funct3 =
     (let imm = (scast (signed_drop_bit 19 (ucast (insn AND 0x80000000) :: u32)) :: u64) OR
                push_bit 4 (insn AND 0x80) OR (drop_bit 20 insn AND 0x7e0) OR
                (drop_bit 7 insn AND 0x1e);
          taken = c\<lparr>pc := pc c + (imm - 4)\<rparr>
      in if funct3 = 0x0 then Some (OK, if regs c rs1 = regs c rs2 then taken else c)
         else if funct3 = 0x1 then Some (OK, if regs c rs1 \<noteq> regs c rs2 then taken else c)
         else if funct3 = 0x4 then
           Some (OK, if sint (regs c rs1) < sint (regs c rs2) then taken else c)
         else if funct3 = 0x5 then
           Some (OK, if sint (regs c rs1) \<ge> sint (regs c rs2) then taken else c)
         else if funct3 = 0x6 then Some (OK, if regs c rs1 < regs c rs2 then taken else c)
         else if funct3 = 0x7 then Some (OK, if regs c rs1 \<ge> regs c rs2 then taken else c)
         else Some (ILLEGAL_INSTRUCTION, c))"

definition exec_sret :: "cpu \<Rightarrow> cpu" where
  "exec_sret c =
     (let c1 = c\<lparr>pc := cpu_load_csr c SEPC\<rparr>;
          c2 = c1\<lparr>mode := (if drop_bit 8 (cpu_load_csr c1 SSTATUS) AND 1 \<noteq> 0
                            then SUPERVISOR else USER)\<rparr>;
          c3 = cpu_store_csr c2 SSTATUS
                 (if drop_bit 5 (cpu_load_csr c2 SSTATUS) AND 1 \<noteq> 0
                  then cpu_load_csr c2 SSTATUS OR push_bit 1 1
                  else cpu_load_csr c2 SSTATUS AND NOT (push_bit 1 1));
          c4 = cpu_store_csr c3 SSTATUS (cpu_load_csr c3 SSTATUS OR push_bit 5 1)
      in cpu_store_csr c4 SSTATUS (cpu_load_csr c4 SSTATUS AND NOT (push_bit 8 1)))"

definition exec_mret :: "cpu \<Rightarrow> cpu" where
  "exec_mret c =
     (let c1 = c\<lparr>pc := cpu_load_csr c MEPC\<rparr>;
          mpp = drop_bit 11 (cpu_load_csr c1 MSTATUS) AND 3;
          c2 = c1\<lparr>mode := (if mpp = 2 then MACHINE
                            else (if mpp = 1 then SUPERVISOR else USER))\<rparr>;
          c3 = cpu_store_csr c2 MSTATUS
                 (if drop_bit 7 (cpu_load_csr c2 MSTATUS) AND 1 \<noteq> 0
                  then cpu_load_csr c2 MSTATUS OR push_bit 3 1
                  else cpu_load_csr c2 MSTATUS AND NOT (push_bit 3 1));
          c4 = cpu_store_csr c3 MSTATUS (cpu_load_csr c3 MSTATUS OR push_bit 7 1)
      in cpu_store_csr c4 MSTATUS (cpu_load_csr c4 MSTATUS AND NOT (push_bit 11 3)))"

text \<open>
  The CSR cases \<open>csrrw\<close>, \<open>csrrs\<close>, \<open>csrrc\<close>, \<open>csrrsi\<close>, \<open>csrrci\<close>: read \<open>t\<close>, store
  the new value, write \<open>t\<close> to \<open>rd\<close>, refresh the paging cache. \<open>csrrwi\<close> writes
  \<open>rd\<close> before it stores.
\<close>

definition csr_rmw :: "cpu \<Rightarrow> u16 \<Rightarrow> u64 \<Rightarrow> (u64 \<Rightarrow> cpu \<Rightarrow> u64) \<Rightarrow> cpu" where
  "csr_rmw c addr rd newv =
     (let t = cpu_load_csr c addr;
          c1 = cpu_store_csr c addr (newv t c);
          c2 = reg_write c1 rd t
      in cpu_update_paging c2 addr)"

definition csr_rwi :: "cpu \<Rightarrow> u16 \<Rightarrow> u64 \<Rightarrow> u64 \<Rightarrow> cpu" where
  "csr_rwi c addr rd rs1 =
     (let c1 = reg_write c rd (cpu_load_csr c addr);
          c2 = cpu_store_csr c1 addr rs1
      in cpu_update_paging c2 addr)"

definition cpu_execute_73 ::
  "cpu \<Rightarrow> u64 \<Rightarrow> u64 \<Rightarrow> u64 \<Rightarrow> u64 \<Rightarrow> u64 \<Rightarrow> u64 \<Rightarrow> (exception_t \<times> cpu) option" where
  "cpu_execute_73 c insn rd rs1 rs2 funct3 funct7 =
     (let addr = (ucast (drop_bit 20 (insn AND 0xfff00000)) :: u16)
      in if funct3 = 0x0 then
           (if rs2 = 0x0 \<and> funct7 = 0x0 then Some (8 + mode_val (mode c), c)
            else if rs2 = 0x1 \<and> funct7 = 0x0 then Some (BREAKPOINT, c)
            else if rs2 = 0x2 \<and> funct7 = 0x8 then Some (OK, exec_sret c)
            else if rs2 = 0x2 \<and> funct7 = 0x18 then Some (OK, exec_mret c)
            else if funct7 = 0x9 then Some (OK, c)
            else Some (ILLEGAL_INSTRUCTION, c))
         else if funct3 = 0x1 then Some (OK, csr_rmw c addr rd (\<lambda>t c. regs c rs1))
         else if funct3 = 0x2 then Some (OK, csr_rmw c addr rd (\<lambda>t c. t OR regs c rs1))
         else if funct3 = 0x3 then Some (OK, csr_rmw c addr rd (\<lambda>t c. t AND NOT (regs c rs1)))
         else if funct3 = 0x5 then Some (OK, csr_rwi c addr rd rs1)
         else if funct3 = 0x6 then Some (OK, csr_rmw c addr rd (\<lambda>t c. t OR rs1))
         else if funct3 = 0x7 then Some (OK, csr_rmw c addr rd (\<lambda>t c. t AND NOT rs1))
         else Some (ILLEGAL_INSTRUCTION, c))"

definition cpu_execute :: "host \<Rightarrow> cpu \<Rightarrow> u64 \<Rightarrow> (exception_t \<times> cpu) option" where
  "cpu_execute h c0 insn =
     (let opcode = insn AND 0x7f;
          rd = drop_bit 7 insn AND 0x1f;
          rs1 = drop_bit 15 insn AND 0x1f;
          rs2 = drop_bit 20 insn AND 0x1f;
          funct3 = drop_bit 12 insn AND 0x7;
          funct7 = drop_bit 25 insn AND 0x7f;
          c = c0\<lparr>regs := (regs c0)(0 := 0)\<rparr>
      in if opcode = 0x03 then cpu_execute_03 h c insn rd rs1 funct3
         else if opcode = 0x0f then
           (if funct3 = 0x0 then Some (OK, c) else Some (ILLEGAL_INSTRUCTION, c))
         else if opcode = 0x13 then cpu_execute_13 c insn rd rs1 funct3 funct7
         else if opcode = 0x17 then
           Some (OK, reg_write c rd
             (pc c + (scast (ucast (insn AND 0xfffff000) :: u32) :: u64) - 4))
         else if opcode = 0x1b then cpu_execute_1b c insn rd rs1 funct3 funct7
         else if opcode = 0x23 then cpu_execute_23 h c insn rs1 rs2 funct3
         else if opcode = 0x2f then cpu_execute_2f h c rd rs1 rs2 funct3 funct7
         else if opcode = 0x33 then
           op_to_rd c rd (op_33 funct3 funct7 (regs c rs1) (regs c rs2))
         else if opcode = 0x37 then
           Some (OK, reg_write c rd (scast (ucast (insn AND 0xfffff000) :: u32)))
         else if opcode = 0x3b then
           op_to_rd c rd (op_3b funct3 funct7 (regs c rs1) (regs c rs2))
         else if opcode = 0x63 then cpu_execute_63 c insn rs1 rs2 funct3
         else if opcode = 0x67 then
           (let t = pc c;
                imm = (scast (signed_drop_bit 20 (ucast (insn AND 0xfff00000) :: u32)) :: u64);
                c1 = c\<lparr>pc := (regs c rs1 + imm) AND NOT 1\<rparr>
            in Some (OK, reg_write c1 rd t))
         else if opcode = 0x6f then
           (let c1 = reg_write c rd (pc c);
                imm = (scast (signed_drop_bit 11 (ucast (insn AND 0x80000000) :: u32)) :: u64) OR
                      (insn AND 0xff000) OR (drop_bit 9 insn AND 0x800) OR
                      (drop_bit 20 insn AND 0x7fe)
            in Some (OK, c1\<lparr>pc := pc c1 + (imm - 4)\<rparr>))
         else if opcode = 0x73 then cpu_execute_73 c insn rd rs1 rs2 funct3 funct7
         else Some (ILLEGAL_INSTRUCTION, c))"

section \<open>Trap controller and interrupt polling\<close>

text \<open>
  \<open>cpu_take_trap\<close>. The delegation test shifts \<open>medeleg\<close> by \<open>(uint32_t) cause\<close>; the
  callers pass exception numbers below 16 and interrupt numbers below 12.
\<close>

definition cpu_take_trap :: "cpu \<Rightarrow> exception_t \<Rightarrow> interrupt_t \<Rightarrow> cpu" where
  "cpu_take_trap c e intr =
     (let exception_pc = pc c - 4;
          prev_mode = mode c;
          is_interrupt = (intr \<noteq> NONE);
          cause = (if is_interrupt then push_bit 63 1 OR (word_of_int intr :: u64)
                   else word_of_int e)
      in if mode_val prev_mode \<le> mode_val SUPERVISOR \<and>
            drop_bit (unat (ucast cause :: u32)) (cpu_load_csr c MEDELEG) AND 1 \<noteq> 0
         then
           let c1 = c\<lparr>mode := SUPERVISOR\<rparr>;
               c2 = (if is_interrupt then
                       (let vec = (if cpu_load_csr c1 STVEC AND 1 \<noteq> 0 then 4 * cause else 0)
                        in c1\<lparr>pc := (cpu_load_csr c1 STVEC AND NOT 1) + vec\<rparr>)
                     else c1\<lparr>pc := cpu_load_csr c1 STVEC AND NOT 1\<rparr>);
               c3 = cpu_store_csr c2 SEPC (exception_pc AND NOT 1);
               c4 = cpu_store_csr c3 SCAUSE cause;
               c5 = cpu_store_csr c4 STVAL 0;
               c6 = cpu_store_csr c5 SSTATUS
                      (if drop_bit 1 (cpu_load_csr c5 SSTATUS) AND 1 \<noteq> 0
                       then cpu_load_csr c5 SSTATUS OR push_bit 5 1
                       else cpu_load_csr c5 SSTATUS AND NOT (push_bit 5 1));
               c7 = cpu_store_csr c6 SSTATUS (cpu_load_csr c6 SSTATUS AND NOT (push_bit 1 1))
           in if prev_mode = USER
              then cpu_store_csr c7 SSTATUS (cpu_load_csr c7 SSTATUS AND NOT (push_bit 8 1))
              else cpu_store_csr c7 SSTATUS (cpu_load_csr c7 SSTATUS OR push_bit 8 1)
         else
           let c1 = c\<lparr>mode := MACHINE\<rparr>;
               c2 = (if is_interrupt then
                       (let vec = (if cpu_load_csr c1 MTVEC AND 1 \<noteq> 0 then 4 * cause else 0)
                        in c1\<lparr>pc := (cpu_load_csr c1 MTVEC AND NOT 1) + vec\<rparr>)
                     else c1\<lparr>pc := cpu_load_csr c1 MTVEC AND NOT 1\<rparr>);
               c3 = cpu_store_csr c2 MEPC (exception_pc AND NOT 1);
               c4 = cpu_store_csr c3 MCAUSE cause;
               c5 = cpu_store_csr c4 MTVAL 0;
               c6 = cpu_store_csr c5 MSTATUS
                      (if drop_bit 3 (cpu_load_csr c5 MSTATUS) AND 1 \<noteq> 0
                       then cpu_load_csr c5 MSTATUS OR push_bit 7 1
                       else cpu_load_csr c5 MSTATUS AND NOT (push_bit 7 1));
               c7 = cpu_store_csr c6 MSTATUS (cpu_load_csr c6 MSTATUS AND NOT (push_bit 3 1))
           in cpu_store_csr c7 MSTATUS (cpu_load_csr c7 MSTATUS AND NOT (push_bit 11 3)))"

definition DISK_IRQ :: u64 where "DISK_IRQ = 1"
definition UART_IRQ :: u64 where "UART_IRQ = 10"

text \<open>
  The \<open>do { ... } while (0)\<close> block of \<open>cpu_check_pending_interrupt\<close>:
  \<open>publish_irq\<close> is its tail (the claim register and \<open>mip.SEIP\<close>), \<open>poll_devices\<close>
  the whole block.
\<close>

definition publish_irq :: "cpu \<Rightarrow> u64 \<Rightarrow> cpu option" where
  "publish_irq c irq =
     (case bus_store (bus c) PLIC_SCLAIM 32 irq of
        None \<Rightarrow> None
      | Some (e, b') \<Rightarrow>
          (let c1 = c\<lparr>bus := b'\<rparr>
           in Some (cpu_store_csr c1 MIP (cpu_load_csr c1 MIP OR MIP_SEIP))))"

definition poll_devices :: "host \<Rightarrow> cpu \<Rightarrow> cpu option" where
  "poll_devices h c =
     (case uart_is_interrupting (uart (bus c)) of (ui, u') \<Rightarrow>
        let b1 = (bus c)\<lparr>uart := u'\<rparr> in
        if ui then publish_irq (c\<lparr>bus := b1\<rparr>) UART_IRQ
        else
          (case disk_is_interrupting (disk b1) of (di, d') \<Rightarrow>
             let b2 = b1\<lparr>disk := d'\<rparr> in
             if di then
               (case bus_disk_access h b2 of
                  None \<Rightarrow> None
                | Some b3 \<Rightarrow> publish_irq (c\<lparr>bus := b3\<rparr>) DISK_IRQ)
             else Some (c\<lparr>bus := b2\<rparr>)))"

text \<open>The chain of \<open>if (pending & ...)\<close> tests that ends the function.\<close>

definition select_pending :: "cpu \<Rightarrow> interrupt_t \<times> cpu" where
  "select_pending c =
     (let pending = cpu_load_csr c MIE AND cpu_load_csr c MIP
      in if pending AND MIP_MEIP \<noteq> 0 then
           (MACHINE_EXTERNAL_INTERRUPT, cpu_store_csr c MIP (cpu_load_csr c MIP AND NOT MIP_MEIP))
         else if pending AND MIP_MSIP \<noteq> 0 then
           (MACHINE_SOFTWARE_INTERRUPT, cpu_store_csr c MIP (cpu_load_csr c MIP AND NOT MIP_MSIP))
         else if pending AND MIP_MTIP \<noteq> 0 then
           (MACHINE_TIMER_INTERRUPT, cpu_store_csr c MIP (cpu_load_csr c MIP AND NOT MIP_MTIP))
         else if pending AND MIP_SEIP \<noteq> 0 then
           (SUPERVISOR_EXTERNAL_INTERRUPT,
            cpu_store_csr c MIP (cpu_load_csr c MIP AND NOT MIP_SEIP))
         else if pending AND MIP_SSIP \<noteq> 0 then
           (SUPERVISOR_SOFTWARE_INTERRUPT,
            cpu_store_csr c MIP (cpu_load_csr c MIP AND NOT MIP_SSIP))
         else if pending AND MIP_STIP \<noteq> 0 then
           (SUPERVISOR_TIMER_INTERRUPT, cpu_store_csr c MIP (cpu_load_csr c MIP AND NOT MIP_STIP))
         else (NONE, c))"

definition cpu_check_pending_interrupt :: "host \<Rightarrow> cpu \<Rightarrow> (interrupt_t \<times> cpu) option" where
  "cpu_check_pending_interrupt h c =
     (if mode c = MACHINE \<and> drop_bit 3 (cpu_load_csr c MSTATUS) AND 1 = 0 then Some (NONE, c)
      else if mode c = SUPERVISOR \<and> drop_bit 1 (cpu_load_csr c SSTATUS) AND 1 = 0
        then Some (NONE, c)
      else
        case poll_devices h c of
          None \<Rightarrow> None
        | Some c1 \<Rightarrow> Some (select_pending c1))"

section \<open>The cycle of main.c\<close>

definition exception_is_fatal :: "exception_t \<Rightarrow> bool" where
  "exception_is_fatal e =
     (e = INSTRUCTION_ADDRESS_MISALIGNED \<or> e = INSTRUCTION_ACCESS_FAULT \<or>
      e = LOAD_ACCESS_FAULT \<or> e = STORE_AMO_ADDRESS_MISALIGNED \<or> e = STORE_AMO_ACCESS_FAULT)"

text \<open>
  \<open>execute_instruction\<close>: fetch, advance \<open>pc\<close>, execute, poll. A fatal exception ends
  the process through \<open>exit\<close> (\<open>None\<close>).
\<close>

definition poll_and_trap :: "host \<Rightarrow> cpu \<Rightarrow> cpu option" where
  "poll_and_trap h c =
     (case cpu_check_pending_interrupt h c of
        None \<Rightarrow> None
      | Some (intr, c1) \<Rightarrow> Some (if intr \<noteq> NONE then cpu_take_trap c1 OK intr else c1))"

definition advance_and_execute :: "host \<Rightarrow> cpu \<Rightarrow> u64 \<Rightarrow> cpu option" where
  "advance_and_execute h c insn =
     (let c1 = c\<lparr>pc := pc c + 4\<rparr>
      in case cpu_execute h c1 insn of
           None \<Rightarrow> None
         | Some (e, c2) \<Rightarrow>
             if e \<noteq> OK then
               (let c3 = cpu_take_trap c2 e NONE
                in if exception_is_fatal e then None else poll_and_trap h c3)
             else poll_and_trap h c2)"

definition execute_instruction :: "host \<Rightarrow> cpu \<Rightarrow> cpu option" where
  "execute_instruction h c =
     (case cpu_fetch h c of
        None \<Rightarrow> None
      | Some (Inl e, c1) \<Rightarrow>
          (let c2 = cpu_take_trap c1 e NONE
           in if exception_is_fatal e then None else advance_and_execute h c2 0)
      | Some (Inr insn, c1) \<Rightarrow> advance_and_execute h c1 insn)"

text \<open>
  The states the hart can be in: a state built by \<open>cpu_new\<close>, and whatever a cycle of
  main.c, a byte delivered by the UART input thread or a key queued by the host makes of
  such a state.
\<close>

inductive reachable :: "host \<Rightarrow> cpu \<Rightarrow> bool" for h :: host where
  reach_new: "cpu_new code dbuf dlen keys = Some c \<Longrightarrow> reachable h c"
| reach_cycle: "reachable h c \<Longrightarrow> execute_instruction h c = Some c' \<Longrightarrow> reachable h c'"
| reach_uart:
    "reachable h c \<Longrightarrow> uart_thread_ready (uart (bus c)) \<Longrightarrow>
     reachable h (c\<lparr>bus := (bus c)\<lparr>uart := uart_thread_recv (uart (bus c)) ch\<rparr>\<rparr>)"
| reach_key:
    "reachable h c \<Longrightarrow>
     reachable h (c\<lparr>bus := (bus c)\<lparr>kbd_queue := kbd_queue (bus c) @ [k]\<rparr>\<rparr>)"

section \<open>Sequences of bus operations\<close>





section \<open>The interrupt priority order, as the specification words it\<close>

text \<open>
  "Select and clear the first matching bit in priority order: MEIP, MSIP, MTIP, SEIP,
  SSIP, STIP. Return that interrupt number; otherwise NONE."
\<close>

definition irq_priority :: "(u64 \<times> interrupt_t) list" where
  "irq_priority =
     [(MIP_MEIP, MACHINE_EXTERNAL_INTERRUPT), (MIP_MSIP, MACHINE_SOFTWARE_INTERRUPT),
      (MIP_MTIP, MACHINE_TIMER_INTERRUPT), (MIP_SEIP, SUPERVISOR_EXTERNAL_INTERRUPT),
      (MIP_SSIP, SUPERVISOR_SOFTWARE_INTERRUPT), (MIP_STIP, SUPERVISOR_TIMER_INTERRUPT)]"

definition select_spec :: "cpu \<Rightarrow> interrupt_t \<times> cpu" where
  "select_spec c =
     (let pending = csrs c MIE AND csrs c MIP
      in case find (\<lambda>(b, i). pending AND b \<noteq> 0) irq_priority of
           None \<Rightarrow> (NONE, c)
         | Some (b, i) \<Rightarrow> (i, c\<lparr>csrs := (csrs c)(MIP := csrs c MIP AND NOT b)\<rparr>))"

section \<open>Example states\<close>

text \<open>
  \<open>host0\<close> is a sample host: its keyboard constants are example values (the header
  that defines them is not under src/), and its 32-bit shift by 32 yields 0.
\<close>

definition host0 :: host where
  "host0 = \<lparr>KBD_BASE = 0x10002000, KBD_SIZE = 0x100, KBD_GET = 0x10002000,
            shl32_by_32 = (\<lambda>x. 0)\<rparr>"

definition bus0 :: bus where
  "bus0 = bus_new \<lparr>ram_data = (\<lambda>_. 0)\<rparr> (disk_new (\<lambda>_. 0) 0) []"

definition cpu0 :: cpu where
  "cpu0 = \<lparr>regs = (\<lambda>_. 0)(2 := RAM_BASE + RAM_SIZE), pc = RAM_BASE, csrs = (\<lambda>_. 0),
           mode = MACHINE, bus = bus0, enable_paging = False, pagetable = 0\<rparr>"

text \<open>A Machine-mode hart with \<open>mstatus.MIE\<close> set and three interrupts pending and enabled.\<close>

definition cpu_irq :: cpu where
  "cpu_irq = cpu0\<lparr>csrs := (\<lambda>_. 0)(MSTATUS := 0x8, MIE := 0xaaa, MIP := 0x288)\<rparr>"

text \<open>
  Two User-mode harts with \<open>mstatus\<close>, \<open>sstatus\<close> and \<open>mip\<close> zero and \<open>SEIP\<close>
  enabled in \<open>mie\<close>: in the first the UART has raised its interrupting flag, in the
  second the guest has written 0 to the block device's \<open>notify\<close> register (with a
  transfer length of 0).
\<close>

definition cpu_user :: cpu where
  "cpu_user =
     cpu0\<lparr>csrs := (\<lambda>_. 0)(MIE := 0x200), mode := USER,
          bus := bus0\<lparr>uart := (uart bus0)\<lparr>interrupting := True\<rparr>\<rparr>\<rparr>"

definition cpu_user_disk :: cpu where
  "cpu_user_disk =
     cpu0\<lparr>csrs := (\<lambda>_. 0)(MIE := 0x200), mode := USER,
          bus := bus0\<lparr>disk := (disk bus0)\<lparr>notify := 0\<rparr>\<rparr>\<rparr>"

section \<open>Predicates of the statements\<close>

text \<open>
  The cached paging fields agree with \<open>satp\<close>: \<open>enable_paging\<close> is true iff the top four
  bits of \<open>satp\<close> are 8, and \<open>pagetable\<close> is the low 44 bits of \<open>satp\<close> times the page
  size.
\<close>

definition paging_cache_ok :: "cpu \<Rightarrow> bool" where
  "paging_cache_ok c =
     (enable_paging c = (drop_bit 60 (csrs c SATP) = 8) \<and>
      pagetable c = (csrs c SATP AND (push_bit 44 1 - 1)) * PAGE_SIZE)"

text \<open>\<open>bus_only c c'\<close>: the step from \<open>c\<close> to \<open>c'\<close> changed nothing but the bus.\<close>

definition bus_only :: "cpu \<Rightarrow> cpu \<Rightarrow> bool" where
  "bus_only c c' =
     (regs c' = regs c \<and> pc c' = pc c \<and> csrs c' = csrs c \<and> mode c' = mode c \<and>
      enable_paging c' = enable_paging c \<and> pagetable c' = pagetable c)"

text \<open>
  \<open>hart_frame rd c c'\<close>: the CSRs, the mode, the cached paging fields and every register
  but \<open>rd\<close> are as before.
\<close>

definition hart_frame :: "u64 \<Rightarrow> cpu \<Rightarrow> cpu \<Rightarrow> bool" where
  "hart_frame rd c c' =
     (csrs c' = csrs c \<and> mode c' = mode c \<and> enable_paging c' = enable_paging c \<and>
      pagetable c' = pagetable c \<and> (\<forall>r. r \<noteq> rd \<longrightarrow> regs c' r = regs c r))"

text \<open>\<open>cache_frame c c'\<close>: \<open>satp\<close> and the two cached paging fields are as before.\<close>

definition cache_frame :: "cpu \<Rightarrow> cpu \<Rightarrow> bool" where
  "cache_frame c c' =
     (csrs c' SATP = csrs c SATP \<and> enable_paging c' = enable_paging c \<and>
      pagetable c' = pagetable c)"

text \<open>\<open>regs_frame rd c c'\<close>: every register but \<open>rd\<close> is as before.\<close>

definition regs_frame :: "u64 \<Rightarrow> cpu \<Rightarrow> cpu \<Rightarrow> bool" where
  "regs_frame rd c c' = (\<forall>r. r \<noteq> rd \<longrightarrow> regs c' r = regs c r)"

text \<open>
  The instructions with an assignment \<open>cpu->regs[rd] = ...\<close>: loads, the immediate and
  register arithmetic opcodes, \<open>auipc\<close>, \<open>lui\<close>, the AMOs, \<open>jalr\<close>, \<open>jal\<close> and the CSR
  instructions. Stores, branches, \<open>fence\<close> and the system instructions with funct3 = 0
  (\<open>ecall\<close>, \<open>ebreak\<close>, \<open>sret\<close>, \<open>mret\<close>, \<open>sfence.vma\<close>) have none.
\<close>

definition writes_rd :: "u64 \<Rightarrow> bool" where
  "writes_rd insn =
     (let opcode = insn AND 0x7f; funct3 = drop_bit 12 insn AND 0x7
      in opcode = 0x03 \<or> opcode = 0x13 \<or> opcode = 0x17 \<or> opcode = 0x1b \<or> opcode = 0x2f \<or>
         opcode = 0x33 \<or> opcode = 0x37 \<or> opcode = 0x3b \<or> opcode = 0x67 \<or> opcode = 0x6f \<or>
         (opcode = 0x73 \<and> funct3 \<noteq> 0x0))"

text \<open>\<open>regs_kept c c'\<close>: all 32 registers are as before.\<close>

definition regs_kept :: "cpu \<Rightarrow> cpu \<Rightarrow> bool" where
  "regs_kept c c' = (regs c' = regs c)"

text \<open>
  The value a CSR instruction writes to its CSR, as the ISA words it: \<open>t\<close> is the old
  value of the CSR, \<open>src\<close> the value of register \<open>rs1\<close>, \<open>uimm\<close> the 5-bit \<open>rs1\<close>
  field read as a literal; funct3 is 1 for \<open>csrrw\<close>, 2 for \<open>csrrs\<close>, 3 for \<open>csrrc\<close>, 5
  for \<open>csrrwi\<close>, 6 for \<open>csrrsi\<close>, 7 for \<open>csrrci\<close>.
\<close>

definition csr_written :: "u64 \<Rightarrow> u64 \<Rightarrow> u64 \<Rightarrow> u64 \<Rightarrow> u64" where
  "csr_written funct3 t src uimm =
     (if funct3 = 1 then src
      else if funct3 = 2 then t OR src
      else if funct3 = 3 then t AND NOT src
      else if funct3 = 5 then uimm
      else if funct3 = 6 then t OR uimm
      else t AND NOT uimm)"


section \<open>The 32-bit difference of \<open>RANGE_CHECK\<close> at the top of the address space\<close>

lemma ucast_minus_one_32: "(ucast (- 1 :: u64) :: u32) = - 1"
  by (rule bit_word_eqI) (simp add: bit_simps)

lemma sint_low_minus_one: "sint (ucast (- 1 :: u64) :: u32) = - 1"
  by (simp add: ucast_minus_one_32)

section \<open>RAM: store followed by load\<close>




















section \<open>What a step leaves unchanged\<close>

lemmas frame_defs = bus_only_def hart_frame_def reg_write_def

lemma cpu_translate_bus_only:
  "pred_option (\<lambda>(res, c1). bus_only c c1) (cpu_translate h c a e)"
  unfolding cpu_translate_def Let_def bus_only_def
  by (simp split: if_split option.split sum.split prod.split)

lemma cpu_load_bus_only:
  "pred_option (\<lambda>(res, c1). bus_only c c1) (cpu_load h c a sz)"
  using cpu_translate_bus_only [of c h a LOAD_PAGE_FAULT]
  unfolding cpu_load_def bus_only_def
  by (auto split: option.split sum.split prod.split)

lemma cpu_store_bus_only:
  "pred_option (\<lambda>(res, c1). bus_only c c1) (cpu_store h c a sz v)"
  using cpu_translate_bus_only [of c h a STORE_AMO_PAGE_FAULT]
  unfolding cpu_store_def bus_only_def
  by (auto split: option.split sum.split prod.split)

lemma cpu_fetch_bus_only:
  "pred_option (\<lambda>(res, c1). bus_only c c1) (cpu_fetch h c)"
  using cpu_translate_bus_only [of c h "pc c" INSTRUCTION_PAGE_FAULT]
  unfolding cpu_fetch_def bus_only_def
  by (auto split: option.split sum.split prod.split)

lemma load_to_rd_frame:
  "pred_option (\<lambda>(e, c'). hart_frame rd c c') (load_to_rd h c addr sz rd conv)"
  using cpu_load_bus_only [of c h addr sz]
  unfolding load_to_rd_def frame_defs
  by (auto split: option.split sum.split prod.split)

lemma frame_refl: "hart_frame rd c c"
  by (simp add: hart_frame_def)

lemma frame_write: "hart_frame rd c (reg_write c rd v)"
  by (simp add: frame_defs)

lemma cpu_execute_03_frame:
  "pred_option (\<lambda>(e, c'). hart_frame rd c c') (cpu_execute_03 h c insn rd rs1 funct3)"
  unfolding cpu_execute_03_def Let_def
  by (simp add: load_to_rd_frame frame_refl)

lemma cpu_execute_13_frame:
  "pred_option (\<lambda>(e, c'). hart_frame rd c c') (cpu_execute_13 c insn rd rs1 funct3 funct7)"
  unfolding cpu_execute_13_def Let_def
  by (simp add: frame_refl frame_write)

lemma cpu_execute_1b_frame:
  "pred_option (\<lambda>(e, c'). hart_frame rd c c') (cpu_execute_1b c insn rd rs1 funct3 funct7)"
  unfolding cpu_execute_1b_def Let_def
  by (simp add: frame_refl frame_write)


lemma cpu_execute_23_frame:
  "pred_option (\<lambda>(e, c'). hart_frame rd c c') (cpu_execute_23 h c insn rs1 rs2 funct3)"
proof -
  have "pred_option (\<lambda>(e, c'). hart_frame rd c c') (cpu_store h c a sz v)" for a sz v
    using cpu_store_bus_only [of c h a sz v]
    by (cases "cpu_store h c a sz v") (auto simp: frame_defs)
  then show ?thesis
    unfolding cpu_execute_23_def Let_def by (simp add: frame_refl)
qed

lemma amo_frame:
  "pred_option (\<lambda>(e, c'). hart_frame rd c c') (amo h c rd rs1 rs2 sz newv)"
proof (cases "cpu_load h c (regs c rs1) sz")
  case None
  then show ?thesis by (simp add: amo_def frame_refl)
next
  case (Some p)
  obtain res c1 where p: "p = (res, c1)" by (cases p)
  have b1: "bus_only c c1" using cpu_load_bus_only [of c h "regs c rs1" sz] Some p by simp
  show ?thesis
  proof (cases res)
    case (Inl e)
    with Some p b1 show ?thesis by (simp add: amo_def frame_refl frame_defs)
  next
    case (Inr t)
    have "pred_option (\<lambda>(e, c2). bus_only c1 c2)
            (cpu_store h c1 (regs c1 rs1) sz (newv t (regs c1 rs2)))"
      by (rule cpu_store_bus_only)
    with Some p b1 Inr show ?thesis
      by (cases "cpu_store h c1 (regs c1 rs1) sz (newv t (regs c1 rs2))")
        (auto simp: amo_def frame_refl frame_defs)
  qed
qed

lemma cpu_execute_2f_frame:
  "pred_option (\<lambda>(e, c'). hart_frame rd c c') (cpu_execute_2f h c rd rs1 rs2 funct3 funct7)"
  unfolding cpu_execute_2f_def Let_def
  by (simp add: amo_frame frame_refl)

lemma op_to_rd_frame:
  "pred_option (\<lambda>(e, c'). hart_frame rd c c') (op_to_rd c rd res)"
  unfolding op_to_rd_def
  by (simp add: frame_refl frame_write split: option.split sum.split)

lemma cpu_execute_63_frame:
  "pred_option (\<lambda>(e, c'). hart_frame rd c c') (cpu_execute_63 c insn rs1 rs2 funct3)"
  unfolding cpu_execute_63_def Let_def
  by (simp add: frame_refl frame_defs)

lemma cache_frame_ok: "cache_frame c c' \<Longrightarrow> paging_cache_ok c \<Longrightarrow> paging_cache_ok c'"
  by (simp add: cache_frame_def paging_cache_ok_def)

lemma cache_frame_refl: "cache_frame c c"
  by (simp add: cache_frame_def)

lemma cache_frame_trans: "cache_frame a b \<Longrightarrow> cache_frame b c \<Longrightarrow> cache_frame a c"
  by (simp add: cache_frame_def)

lemma hart_frame_cache: "hart_frame rd c c' \<Longrightarrow> cache_frame c c'"
  by (simp add: hart_frame_def cache_frame_def)

lemma bus_only_cache: "bus_only c c' \<Longrightarrow> cache_frame c c'"
  by (simp add: bus_only_def cache_frame_def)

lemma store_csr_fields:
  "regs (cpu_store_csr c addr v) = regs c"
  "pc (cpu_store_csr c addr v) = pc c"
  "mode (cpu_store_csr c addr v) = mode c"
  "bus (cpu_store_csr c addr v) = bus c"
  "enable_paging (cpu_store_csr c addr v) = enable_paging c"
  "pagetable (cpu_store_csr c addr v) = pagetable c"
  by (simp_all add: cpu_store_csr_def)

lemma store_csr_satp:
  "addr \<noteq> SATP \<Longrightarrow> csrs (cpu_store_csr c addr v) SATP = csrs c SATP"
  by (simp add: cpu_store_csr_def csr_defs)

lemma store_csr_cache: "addr \<noteq> SATP \<Longrightarrow> cache_frame c (cpu_store_csr c addr v)"
  by (simp add: cache_frame_def store_csr_fields store_csr_satp)

lemma update_paging_ok: "paging_cache_ok (cpu_update_paging c SATP)"
  by (simp add: cpu_update_paging_def paging_cache_ok_def cpu_load_csr_def csr_defs Let_def)

lemma update_paging_other: "addr \<noteq> SATP \<Longrightarrow> cpu_update_paging c addr = c"
  by (simp add: cpu_update_paging_def)

lemma update_paging_regs: "regs (cpu_update_paging c addr) = regs c"
  by (simp add: cpu_update_paging_def Let_def)

lemma csr_rmw_regs: "r \<noteq> rd \<Longrightarrow> regs (csr_rmw c addr rd newv) r = regs c r"
  by (simp add: csr_rmw_def Let_def update_paging_regs reg_write_def store_csr_fields)

lemma csr_rwi_regs: "r \<noteq> rd \<Longrightarrow> regs (csr_rwi c addr rd rs1) r = regs c r"
  by (simp add: csr_rwi_def Let_def update_paging_regs reg_write_def store_csr_fields)

lemma csr_rmw_paging: "paging_cache_ok c \<Longrightarrow> paging_cache_ok (csr_rmw c addr rd newv)"
proof (cases "addr = SATP")
  case True
  then show ?thesis by (simp add: csr_rmw_def Let_def update_paging_ok)
next
  case False
  assume ok: "paging_cache_ok c"
  from False have "cache_frame c (csr_rmw c addr rd newv)"
    by (simp add: csr_rmw_def Let_def update_paging_other cache_frame_def reg_write_def
        store_csr_fields store_csr_satp)
  then show ?thesis using ok by (rule cache_frame_ok)
qed

lemma csr_rwi_paging: "paging_cache_ok c \<Longrightarrow> paging_cache_ok (csr_rwi c addr rd rs1)"
proof (cases "addr = SATP")
  case True
  then show ?thesis by (simp add: csr_rwi_def Let_def update_paging_ok)
next
  case False
  assume ok: "paging_cache_ok c"
  from False have "cache_frame c (csr_rwi c addr rd rs1)"
    by (simp add: csr_rwi_def Let_def update_paging_other cache_frame_def reg_write_def
        cpu_store_csr_def csr_defs)
  then show ?thesis using ok by (rule cache_frame_ok)
qed

lemma csr_rmw_other: "addr \<noteq> SATP \<Longrightarrow> cache_frame c (csr_rmw c addr rd newv)"
  by (simp add: csr_rmw_def Let_def update_paging_other cache_frame_def reg_write_def
      store_csr_fields store_csr_satp)

lemma csr_rwi_other: "addr \<noteq> SATP \<Longrightarrow> cache_frame c (csr_rwi c addr rd rs1)"
  by (simp add: csr_rwi_def Let_def update_paging_other cache_frame_def reg_write_def
      cpu_store_csr_def csr_defs)

lemma exec_sret_fields: "regs (exec_sret c) = regs c" "cache_frame c (exec_sret c)"
  by (simp_all add: exec_sret_def Let_def cache_frame_def cpu_store_csr_def csr_defs)

lemma exec_mret_fields: "regs (exec_mret c) = regs c" "cache_frame c (exec_mret c)"
  by (simp_all add: exec_mret_def Let_def cache_frame_def cpu_store_csr_def csr_defs)

lemma cpu_execute_73_regs:
  "pred_option (\<lambda>(e, c'). \<forall>r. r \<noteq> rd \<longrightarrow> regs c' r = regs c r)
     (cpu_execute_73 c insn rd rs1 rs2 funct3 funct7)"
  unfolding cpu_execute_73_def Let_def
  by (simp add: csr_rmw_regs csr_rwi_regs exec_sret_fields exec_mret_fields)

lemma cpu_execute_73_paging:
  "paging_cache_ok c \<Longrightarrow>
   pred_option (\<lambda>(e, c'). paging_cache_ok c') (cpu_execute_73 c insn rd rs1 rs2 funct3 funct7)"
  unfolding cpu_execute_73_def Let_def
  by (simp add: csr_rmw_paging csr_rwi_paging
      cache_frame_ok [OF exec_sret_fields(2)] cache_frame_ok [OF exec_mret_fields(2)])

lemma cpu_execute_73_other:
  "funct3 = 0 \<or> ucast (drop_bit 20 (insn AND 0xfff00000)) \<noteq> SATP \<Longrightarrow>
   pred_option (\<lambda>(e, c'). cache_frame c c') (cpu_execute_73 c insn rd rs1 rs2 funct3 funct7)"
  unfolding cpu_execute_73_def Let_def
  by (auto simp add: csr_rmw_other csr_rwi_other exec_sret_fields exec_mret_fields
      cache_frame_refl)

lemma frame_regs_mono:
  "pred_option (\<lambda>(e, c'). hart_frame rd c c') res \<Longrightarrow>
   pred_option (\<lambda>(e, c'). regs_frame rd c c') res"
  by (cases res) (auto simp: hart_frame_def regs_frame_def)

lemma frame_cache_mono:
  "pred_option (\<lambda>(e, c'). hart_frame rd c c') res \<Longrightarrow>
   pred_option (\<lambda>(e, c'). cache_frame c c') res"
  by (cases res) (auto simp: hart_frame_def cache_frame_def)

lemmas handler_frames =
  cpu_execute_03_frame cpu_execute_13_frame cpu_execute_1b_frame cpu_execute_23_frame
  cpu_execute_2f_frame op_to_rd_frame cpu_execute_63_frame

lemmas handler_regs = handler_frames [THEN frame_regs_mono]
lemmas handler_cache = handler_frames [THEN frame_cache_mono]

lemma regs_frame_simps:
  "regs_frame rd c c"
  "regs_frame rd c (reg_write c rd v)"
  "regs_frame rd c (reg_write (c\<lparr>pc := p\<rparr>) rd v)"
  "regs_frame rd c ((reg_write c rd v)\<lparr>pc := p\<rparr>)"
  by (simp_all add: regs_frame_def reg_write_def)

lemma cache_frame_simps:
  "cache_frame c c"
  "cache_frame c (reg_write c rd v)"
  "cache_frame c (reg_write (c\<lparr>pc := p\<rparr>) rd v)"
  "cache_frame c ((reg_write c rd v)\<lparr>pc := p\<rparr>)"
  by (simp_all add: cache_frame_def reg_write_def)

lemma cpu_execute_73_regs_frame:
  "pred_option (\<lambda>(e, c'). regs_frame rd c c') (cpu_execute_73 c insn rd rs1 rs2 funct3 funct7)"
  using cpu_execute_73_regs [of rd c insn rs1 rs2 funct3 funct7]
  by (simp add: regs_frame_def)

lemma cpu_execute_regs:
  "pred_option
     (\<lambda>(e, c'). regs_frame (drop_bit 7 insn AND 0x1f) (c0\<lparr>regs := (regs c0)(0 := 0)\<rparr>) c')
     (cpu_execute h c0 insn)"
  unfolding cpu_execute_def Let_def
  by (simp add: handler_regs cpu_execute_73_regs_frame regs_frame_simps)

lemma cpu_execute_cache:
  "insn AND 0x7f \<noteq> 0x73 \<Longrightarrow>
   pred_option (\<lambda>(e, c'). cache_frame (c0\<lparr>regs := (regs c0)(0 := 0)\<rparr>) c')
     (cpu_execute h c0 insn)"
  unfolding cpu_execute_def Let_def
  by (simp add: handler_cache cache_frame_simps)

lemma cpu_execute_system_cache:
  "insn AND 0x7f = 0x73 \<Longrightarrow>
   drop_bit 12 insn AND 7 = 0 \<or> ucast (drop_bit 20 (insn AND 0xfff00000)) \<noteq> SATP \<Longrightarrow>
   pred_option (\<lambda>(e, c'). cache_frame (c0\<lparr>regs := (regs c0)(0 := 0)\<rparr>) c')
     (cpu_execute h c0 insn)"
  unfolding cpu_execute_def Let_def
  by (simp add: cpu_execute_73_other)

lemma cpu_execute_paging:
  assumes "paging_cache_ok c0"
  shows "pred_option (\<lambda>(e, c'). paging_cache_ok c') (cpu_execute h c0 insn)"
proof (cases "insn AND 0x7f = 0x73")
  case True
  have "paging_cache_ok (c0\<lparr>regs := (regs c0)(0 := 0)\<rparr>)"
    using assms by (simp add: paging_cache_ok_def)
  then show ?thesis
    using True unfolding cpu_execute_def Let_def by (simp add: cpu_execute_73_paging)
next
  case False
  have ok: "paging_cache_ok (c0\<lparr>regs := (regs c0)(0 := 0)\<rparr>)"
    using assms by (simp add: paging_cache_ok_def)
  show ?thesis
    using cpu_execute_cache [OF False, of c0 h] ok
    by (cases "cpu_execute h c0 insn") (auto dest: cache_frame_ok)
qed

lemma take_trap_cache: "cache_frame c (cpu_take_trap c e intr)"
  by (simp add: cpu_take_trap_def Let_def cache_frame_def cpu_store_csr_def csr_defs)

lemma publish_irq_cache: "pred_option (cache_frame c) (publish_irq c irq)"
  by (simp add: publish_irq_def Let_def cache_frame_def cpu_store_csr_def csr_defs
      split: option.split prod.split)

lemma cache_frame_bus: "cache_frame (c\<lparr>bus := b\<rparr>) = cache_frame c"
  by (rule ext) (simp add: cache_frame_def)

lemma cache_frame_regs: "cache_frame (c\<lparr>regs := r\<rparr>) c' = cache_frame c c'"
  by (simp add: cache_frame_def)

lemma cache_frame_pc: "cache_frame (c\<lparr>pc := p\<rparr>) c' = cache_frame c c'"
  by (simp add: cache_frame_def)

lemma poll_devices_cache: "pred_option (cache_frame c) (poll_devices h c)"
proof -
  have p: "pred_option (cache_frame c) (publish_irq (c\<lparr>bus := b\<rparr>) irq)" for b irq
    using publish_irq_cache [of "c\<lparr>bus := b\<rparr>" irq] by (simp add: cache_frame_bus)
  show ?thesis
    unfolding poll_devices_def Let_def
    by (simp add: p cache_frame_def split: prod.split option.split)
qed

lemma select_pending_cache: "cache_frame c (snd (select_pending c))"
  by (simp add: select_pending_def Let_def cache_frame_def cpu_store_csr_def csr_defs)

lemma check_pending_cache:
  "pred_option (\<lambda>(i, c'). cache_frame c c') (cpu_check_pending_interrupt h c)"
proof (cases "poll_devices h c")
  case None
  then show ?thesis by (simp add: cpu_check_pending_interrupt_def cache_frame_refl)
next
  case (Some c1)
  then have "cache_frame c c1" using poll_devices_cache [of c h] by simp
  then have "cache_frame c (snd (select_pending c1))"
    using select_pending_cache [of c1] by (rule cache_frame_trans)
  with Some show ?thesis
    by (auto simp: cpu_check_pending_interrupt_def cache_frame_refl split: prod.split)
qed

lemma fetch_cache: "pred_option (\<lambda>(r, c'). cache_frame c c') (cpu_fetch h c)"
  using cpu_fetch_bus_only [of c h]
  by (cases "cpu_fetch h c") (auto dest: bus_only_cache)

lemma poll_and_trap_ok:
  assumes "paging_cache_ok c"
  shows "pred_option paging_cache_ok (poll_and_trap h c)"
proof (cases "cpu_check_pending_interrupt h c")
  case None
  then show ?thesis by (simp add: poll_and_trap_def)
next
  case (Some p)
  obtain i c1 where p: "p = (i, c1)" by (cases p)
  have "cache_frame c c1" using check_pending_cache [of c h] Some p by simp
  then have ok1: "paging_cache_ok c1" using assms by (rule cache_frame_ok)
  have "paging_cache_ok (cpu_take_trap c1 OK i)"
    using take_trap_cache ok1 by (rule cache_frame_ok)
  with ok1 Some p show ?thesis by (simp add: poll_and_trap_def)
qed

lemma advance_and_execute_ok:
  assumes "paging_cache_ok c"
  shows "pred_option paging_cache_ok (advance_and_execute h c insn)"
proof -
  have ok1: "paging_cache_ok (c\<lparr>pc := pc c + 4\<rparr>)"
    using assms by (simp add: paging_cache_ok_def)
  show ?thesis
  proof (cases "cpu_execute h (c\<lparr>pc := pc c + 4\<rparr>) insn")
    case None
    then show ?thesis by (simp add: advance_and_execute_def)
  next
    case (Some p)
    obtain e c2 where p: "p = (e, c2)" by (cases p)
    have ok2: "paging_cache_ok c2"
      using cpu_execute_paging [OF ok1, of h insn] Some p by simp
    have ok3: "paging_cache_ok (cpu_take_trap c2 e NONE)"
      using take_trap_cache ok2 by (rule cache_frame_ok)
    show ?thesis
      using Some p poll_and_trap_ok [OF ok2, of h] poll_and_trap_ok [OF ok3, of h]
      by (simp add: advance_and_execute_def Let_def)
  qed
qed

lemma execute_instruction_ok:
  assumes "paging_cache_ok c"
  shows "pred_option paging_cache_ok (execute_instruction h c)"
proof (cases "cpu_fetch h c")
  case None
  then show ?thesis by (simp add: execute_instruction_def)
next
  case (Some p)
  obtain res c1 where p: "p = (res, c1)" by (cases p)
  have "cache_frame c c1" using fetch_cache [of c h] Some p by simp
  then have ok1: "paging_cache_ok c1" using assms by (rule cache_frame_ok)
  show ?thesis
  proof (cases res)
    case (Inl e)
    have "paging_cache_ok (cpu_take_trap c1 e NONE)"
      using take_trap_cache ok1 by (rule cache_frame_ok)
    then show ?thesis
      using Some p Inl advance_and_execute_ok [of "cpu_take_trap c1 e NONE" h 0]
      by (simp add: execute_instruction_def Let_def)
  next
    case (Inr insn)
    then show ?thesis
      using Some p advance_and_execute_ok [OF ok1, of h insn]
      by (simp add: execute_instruction_def)
  qed
qed

lemma cpu_new_ok: "cpu_new code dbuf dlen keys = Some c \<Longrightarrow> paging_cache_ok c"
  by (auto simp: cpu_new_def paging_cache_ok_def PAGE_SIZE_def split: option.splits)

lemma reachable_paging_ok: "reachable h c \<Longrightarrow> paging_cache_ok c"
proof (induction rule: reachable.induct)
  case (reach_new code dbuf dlen keys c)
  then show ?case by (rule cpu_new_ok)
next
  case (reach_cycle c c')
  then show ?case using execute_instruction_ok [of c h] by simp
next
  case (reach_uart c ch)
  then show ?case by (simp add: paging_cache_ok_def)
next
  case (reach_key c k)
  then show ?case by (simp add: paging_cache_ok_def)
qed

lemma csrrw_satp:
  assumes "insn AND 0x7f = 0x73" and "drop_bit 12 insn AND 0x7 = 1"
    and "ucast (drop_bit 20 (insn AND 0xfff00000)) = SATP"
  shows "\<exists>c'. cpu_execute h c insn = Some (OK, c') \<and>
           csrs c' SATP = ((regs c)(0 := 0)) (drop_bit 15 insn AND 0x1f) \<and>
           paging_cache_ok c'"
  using assms
  by (simp add: cpu_execute_def cpu_execute_73_def Let_def csr_rmw_def update_paging_ok
      cpu_update_paging_def reg_write_def cpu_store_csr_def cpu_load_csr_def csr_defs
      paging_cache_ok_def)

section \<open>Register 0\<close>

lemma cpu_execute_zeroes_first:
  "cpu_execute h c insn = cpu_execute h (c\<lparr>regs := (regs c)(0 := 0)\<rparr>) insn"
  by (simp add: cpu_execute_def)

lemma regs_kept_refl: "regs_kept c c"
  by (simp add: regs_kept_def)

lemma load_to_rd_err:
  "pred_option (\<lambda>(e, c'). e \<noteq> OK \<longrightarrow> regs_kept c c') (load_to_rd h c addr sz rd conv)"
  using cpu_load_bus_only [of c h addr sz]
  unfolding load_to_rd_def regs_kept_def bus_only_def
  by (auto split: option.split sum.split prod.split)

lemma cpu_execute_03_err:
  "pred_option (\<lambda>(e, c'). e \<noteq> OK \<longrightarrow> regs_kept c c') (cpu_execute_03 h c insn rd rs1 funct3)"
  unfolding cpu_execute_03_def Let_def
  by (simp add: load_to_rd_err regs_kept_refl)

lemma cpu_execute_13_err:
  "pred_option (\<lambda>(e, c'). e \<noteq> OK \<longrightarrow> regs_kept c c') (cpu_execute_13 c insn rd rs1 funct3 funct7)"
  unfolding cpu_execute_13_def Let_def
  by (simp add: regs_kept_refl)

lemma cpu_execute_1b_err:
  "pred_option (\<lambda>(e, c'). e \<noteq> OK \<longrightarrow> regs_kept c c') (cpu_execute_1b c insn rd rs1 funct3 funct7)"
  unfolding cpu_execute_1b_def Let_def
  by (simp add: regs_kept_refl)

lemma cpu_store_kept:
  "pred_option (\<lambda>(e, c'). regs_kept c c') (cpu_store h c a sz v)"
  using cpu_store_bus_only [of c h a sz v]
  by (cases "cpu_store h c a sz v") (auto simp: regs_kept_def bus_only_def)

lemma cpu_execute_23_kept:
  "pred_option (\<lambda>(e, c'). regs_kept c c') (cpu_execute_23 h c insn rs1 rs2 funct3)"
  unfolding cpu_execute_23_def Let_def
  by (simp add: cpu_store_kept regs_kept_refl)

lemma amo_err:
  "pred_option (\<lambda>(e, c'). e \<noteq> OK \<longrightarrow> regs_kept c c') (amo h c rd rs1 rs2 sz newv)"
proof (cases "cpu_load h c (regs c rs1) sz")
  case None
  then show ?thesis by (simp add: amo_def regs_kept_refl)
next
  case (Some p)
  obtain res c1 where p: "p = (res, c1)" by (cases p)
  have b1: "bus_only c c1" using cpu_load_bus_only [of c h "regs c rs1" sz] Some p by simp
  show ?thesis
  proof (cases res)
    case (Inl e)
    with Some p b1 show ?thesis by (simp add: amo_def regs_kept_def bus_only_def)
  next
    case (Inr t)
    have "pred_option (\<lambda>(e, c2). bus_only c1 c2)
            (cpu_store h c1 (regs c1 rs1) sz (newv t (regs c1 rs2)))"
      by (rule cpu_store_bus_only)
    with Some p b1 Inr show ?thesis
      by (cases "cpu_store h c1 (regs c1 rs1) sz (newv t (regs c1 rs2))")
        (auto simp: amo_def regs_kept_def bus_only_def)
  qed
qed

lemma cpu_execute_2f_err:
  "pred_option (\<lambda>(e, c'). e \<noteq> OK \<longrightarrow> regs_kept c c')
     (cpu_execute_2f h c rd rs1 rs2 funct3 funct7)"
  unfolding cpu_execute_2f_def Let_def
  by (simp add: amo_err regs_kept_refl)

lemma op_to_rd_err:
  "pred_option (\<lambda>(e, c'). e \<noteq> OK \<longrightarrow> regs_kept c c') (op_to_rd c rd res)"
  unfolding op_to_rd_def
  by (simp add: regs_kept_refl split: option.split sum.split)

lemma cpu_execute_63_kept:
  "pred_option (\<lambda>(e, c'). regs_kept c c') (cpu_execute_63 c insn rs1 rs2 funct3)"
  unfolding cpu_execute_63_def Let_def
  by (simp add: regs_kept_def)

lemma sret_mret_kept: "regs_kept c (exec_sret c)" "regs_kept c (exec_mret c)"
  by (simp_all add: regs_kept_def exec_sret_fields exec_mret_fields)

lemma cpu_execute_73_err:
  "pred_option (\<lambda>(e, c'). e \<noteq> OK \<longrightarrow> regs_kept c c')
     (cpu_execute_73 c insn rd rs1 rs2 funct3 funct7)"
  unfolding cpu_execute_73_def Let_def
  by (simp add: regs_kept_refl sret_mret_kept)

lemma cpu_execute_73_kept:
  "funct3 = 0 \<Longrightarrow>
   pred_option (\<lambda>(e, c'). regs_kept c c') (cpu_execute_73 c insn rd rs1 rs2 funct3 funct7)"
  unfolding cpu_execute_73_def Let_def
  by (simp add: regs_kept_refl sret_mret_kept)

lemma kept_weaken:
  "pred_option (\<lambda>(e, c'). regs_kept c c') res \<Longrightarrow>
   pred_option (\<lambda>(e, c'). e \<noteq> OK \<longrightarrow> regs_kept c c') res"
  by (cases res) auto

lemma cpu_execute_err:
  "pred_option (\<lambda>(e, c'). e \<noteq> OK \<longrightarrow> regs_kept (c0\<lparr>regs := (regs c0)(0 := 0)\<rparr>) c')
     (cpu_execute h c0 insn)"
  unfolding cpu_execute_def Let_def
  by (simp add: cpu_execute_03_err cpu_execute_13_err cpu_execute_1b_err
      cpu_execute_23_kept [THEN kept_weaken] cpu_execute_2f_err op_to_rd_err
      cpu_execute_63_kept [THEN kept_weaken] cpu_execute_73_err regs_kept_refl)

lemma cpu_execute_nonwriting:
  "\<not> writes_rd insn \<Longrightarrow>
   pred_option (\<lambda>(e, c'). regs_kept (c0\<lparr>regs := (regs c0)(0 := 0)\<rparr>) c')
     (cpu_execute h c0 insn)"
  unfolding cpu_execute_def writes_rd_def Let_def
  by (simp add: cpu_execute_23_kept cpu_execute_63_kept cpu_execute_73_kept regs_kept_refl)

text \<open>
  Claim C1, as the code has it. \<open>cpu_execute\<close> sets \<open>regs[0]\<close> to zero before it
  decodes, so its result does not depend on what \<open>regs[0]\<close> held on entry: every
  instruction reads register 0 as zero. When \<open>cpu_execute\<close> returns, \<open>regs[0]\<close> is
  zero in every case but one: it is zero when the \<open>rd\<close> field (bits 7 to 11) is not 0,
  when the return value is not \<open>OK\<close>, and when the instruction is one that assigns no
  register (a store, a branch, \<open>fence\<close>, \<open>ecall\<close>, \<open>ebreak\<close>, \<open>sret\<close>, \<open>mret\<close>,
  \<open>sfence.vma\<close>, or an instruction that is not decoded). The case left is an
  instruction that returns \<open>OK\<close> and assigns \<open>regs[rd]\<close> with \<open>rd = 0\<close>: the value
  it wrote stays in \<open>regs[0]\<close> until the next call zeroes it.
\<close>

theorem x0_zero_on_entry:
  "cpu_execute h c insn = cpu_execute h (c\<lparr>regs := (regs c)(0 := 0)\<rparr>) insn \<and>
   (cpu_execute h c insn = Some (e, c') \<and>
    (drop_bit 7 insn AND 0x1f \<noteq> 0 \<or> e \<noteq> OK \<or> \<not> writes_rd insn) \<longrightarrow> regs c' 0 = 0)"
proof -
  have 1: "regs c' 0 = 0"
    if "drop_bit 7 insn AND 0x1f \<noteq> 0" and "cpu_execute h c insn = Some (e, c')"
    using cpu_execute_regs [of insn c h] that by (simp add: regs_frame_def)
  have 2: "regs c' 0 = 0" if "e \<noteq> OK" and "cpu_execute h c insn = Some (e, c')"
    using cpu_execute_err [of c h insn] that by (simp add: regs_kept_def)
  have 3: "regs c' 0 = 0" if "\<not> writes_rd insn" and "cpu_execute h c insn = Some (e, c')"
    using cpu_execute_nonwriting [of insn c h] that by (simp add: regs_kept_def)
  from 1 2 3 show ?thesis using cpu_execute_zeroes_first [of h c insn] by blast
qed

text \<open>
  On a hart whose \<open>regs[0]\<close> holds 7: \<open>addi x1, x0, 5\<close> (0x00500093, \<open>rd\<close> not 0),
  \<open>ecall\<close> (0x00000073, returns cause 11) and \<open>beq x0, x0, 32\<close> (0x02000063, returns
  \<open>OK\<close>, bits 7 to 11 are 0, assigns no register).
\<close>

theorem x0_zero_on_entry_witness:
  "(\<exists>c'. cpu_execute host0 (cpu0\<lparr>regs := (regs cpu0)(0 := 7)\<rparr>) 0x00500093 = Some (OK, c') \<and>
         regs c' 0 = 0 \<and> regs c' 1 = 5) \<and>
   (\<exists>c'. cpu_execute host0 (cpu0\<lparr>regs := (regs cpu0)(0 := 7)\<rparr>) 0x00000073 = Some (11, c') \<and>
         regs c' 0 = 0) \<and>
   (\<exists>c'. cpu_execute host0 (cpu0\<lparr>regs := (regs cpu0)(0 := 7)\<rparr>) 0x02000063 = Some (OK, c') \<and>
         regs c' 0 = 0 \<and> pc c' = pc cpu0 + 28)"
proof -
  let ?c = "cpu0\<lparr>regs := (regs cpu0)(0 := 7)\<rparr>"
  obtain c1 where x1: "cpu_execute host0 ?c 0x00500093 = Some (OK, c1)" and r1: "regs c1 1 = 5"
    by (simp add: cpu_execute_def cpu_execute_13_def reg_write_def cpu0_def Let_def)
  have z1: "regs c1 0 = 0"
    using x0_zero_on_entry [of host0 ?c "0x00500093" OK c1] x1 by simp
  obtain c2 where x2: "cpu_execute host0 ?c 0x00000073 = Some (11, c2)"
    by (simp add: cpu_execute_def cpu_execute_73_def cpu0_def Let_def)
  have z2: "regs c2 0 = 0"
    using x0_zero_on_entry [of host0 ?c "0x00000073" 11 c2] x2 by (simp add: OK_def)
  obtain c3 where x3: "cpu_execute host0 ?c 0x02000063 = Some (OK, c3)"
    and p3: "pc c3 = pc cpu0 + 28"
    by (simp add: cpu_execute_def cpu_execute_63_def cpu0_def Let_def)
  have z3: "regs c3 0 = 0"
    using x0_zero_on_entry [of host0 ?c "0x02000063" OK c3] x3 by (simp add: writes_rd_def)
  from x1 r1 z1 x2 z2 x3 p3 z3 show ?thesis by blast
qed

text \<open>
  Claim C1 as stated fails: after \<open>addi x0, x0, 5\<close> (0x00500013) \<open>regs[0]\<close> is 5.
\<close>

theorem x0_nonzero_after_addi_x0:
  "cpu_execute host0 cpu0 0x00500013 \<noteq> None \<and>
   fst (the (cpu_execute host0 cpu0 0x00500013)) = OK \<and>
   regs (snd (the (cpu_execute host0 cpu0 0x00500013))) 0 = 5"
  by (simp add: cpu_execute_def cpu_execute_13_def reg_write_def cpu0_def Let_def)

section \<open>The paging cache\<close>

lemma csr_any_satp_refresh:
  assumes "insn AND 0x7f = 0x73"
    and "drop_bit 12 insn AND 0x7 \<in> {1, 2, 3, 5, 6, 7}"
    and "ucast (drop_bit 20 (insn AND 0xfff00000)) = SATP"
  shows "\<exists>c1. cpu_execute h c insn = Some (OK, c1) \<and>
           csrs c1 SATP =
             csr_written (drop_bit 12 insn AND 0x7) (csrs c SATP)
               (((regs c)(0 := 0)) (drop_bit 15 insn AND 0x1f)) (drop_bit 15 insn AND 0x1f) \<and>
           paging_cache_ok c1"
proof -
  consider "drop_bit 12 insn AND 0x7 = 1" | "drop_bit 12 insn AND 0x7 = 2"
    | "drop_bit 12 insn AND 0x7 = 3" | "drop_bit 12 insn AND 0x7 = 5"
    | "drop_bit 12 insn AND 0x7 = 6" | "drop_bit 12 insn AND 0x7 = 7"
    using assms(2) by auto
  then show ?thesis
  proof cases
    case 1
    with assms show ?thesis
      by (simp add: cpu_execute_def cpu_execute_73_def Let_def csr_rmw_def csr_written_def
          cpu_update_paging_def reg_write_def cpu_store_csr_def cpu_load_csr_def csr_defs
          paging_cache_ok_def)
  next
    case 2
    with assms show ?thesis
      by (simp add: cpu_execute_def cpu_execute_73_def Let_def csr_rmw_def csr_written_def
          cpu_update_paging_def reg_write_def cpu_store_csr_def cpu_load_csr_def csr_defs
          paging_cache_ok_def)
  next
    case 3
    with assms show ?thesis
      by (simp add: cpu_execute_def cpu_execute_73_def Let_def csr_rmw_def csr_written_def
          cpu_update_paging_def reg_write_def cpu_store_csr_def cpu_load_csr_def csr_defs
          paging_cache_ok_def)
  next
    case 4
    with assms show ?thesis
      by (simp add: cpu_execute_def cpu_execute_73_def Let_def csr_rwi_def csr_written_def
          cpu_update_paging_def reg_write_def cpu_store_csr_def cpu_load_csr_def csr_defs
          paging_cache_ok_def)
  next
    case 5
    with assms show ?thesis
      by (simp add: cpu_execute_def cpu_execute_73_def Let_def csr_rmw_def csr_written_def
          cpu_update_paging_def reg_write_def cpu_store_csr_def cpu_load_csr_def csr_defs
          paging_cache_ok_def)
  next
    case 6
    with assms show ?thesis
      by (simp add: cpu_execute_def cpu_execute_73_def Let_def csr_rmw_def csr_written_def
          cpu_update_paging_def reg_write_def cpu_store_csr_def cpu_load_csr_def csr_defs
          paging_cache_ok_def)
  qed
qed

lemma cpu_execute_cache_frame:
  assumes "insn AND 0x7f \<noteq> 0x73 \<or> drop_bit 12 insn AND 0x7 = 0 \<or>
           ucast (drop_bit 20 (insn AND 0xfff00000)) \<noteq> SATP"
    and "cpu_execute h c insn = Some (e, c')"
  shows "cache_frame c c'"
proof (cases "insn AND 0x7f = 0x73")
  case True
  with assms(1) have "drop_bit 12 insn AND 0x7 = 0 \<or>
      ucast (drop_bit 20 (insn AND 0xfff00000)) \<noteq> SATP" by simp
  from cpu_execute_system_cache [OF True this, of c h] assms(2)
  show ?thesis by (simp add: cache_frame_def)
next
  case False
  from cpu_execute_cache [OF False, of c h] assms(2)
  show ?thesis by (simp add: cache_frame_def)
qed

text \<open>
  Claim C5. In every reachable hart state \<open>enable_paging\<close> is true iff the top four
  bits of \<open>satp\<close> are 8, and \<open>pagetable\<close> is the low 44 bits of \<open>satp\<close> times 4096.
  Each of the six CSR instructions (\<open>csrrw\<close>, \<open>csrrs\<close>, \<open>csrrc\<close>, \<open>csrrwi\<close>,
  \<open>csrrsi\<close>, \<open>csrrci\<close>) whose CSR index is \<open>satp\<close> returns \<open>OK\<close>, writes to
  \<open>satp\<close> the value the ISA gives for it, and leaves the cached fields equal to what
  the new \<open>satp\<close> gives, whatever they held before (so after \<open>csrrw x0, satp, v\<close>
  paging is on with root \<open>(v & (2^44 - 1)) * 4096\<close> when the top four bits of \<open>v\<close> are
  8, and off when they are 0). Every instruction keeps the cache in step with \<open>satp\<close>.
  An instruction that is not a CSR instruction on \<open>satp\<close>, \<open>cpu_take_trap\<close>,
  \<open>cpu_fetch\<close> and \<open>cpu_check_pending_interrupt\<close> leave \<open>satp\<close> and both cached
  fields as they were.
\<close>

theorem paging_cache_follows_satp:
  "(reachable h c \<longrightarrow> paging_cache_ok c) \<and>
   (insn AND 0x7f = 0x73 \<and> drop_bit 12 insn AND 0x7 \<in> {1, 2, 3, 5, 6, 7} \<and>
    ucast (drop_bit 20 (insn AND 0xfff00000)) = SATP \<longrightarrow>
      (\<exists>c1. cpu_execute h c insn = Some (OK, c1) \<and>
         csrs c1 SATP =
           csr_written (drop_bit 12 insn AND 0x7) (csrs c SATP)
             (((regs c)(0 := 0)) (drop_bit 15 insn AND 0x1f)) (drop_bit 15 insn AND 0x1f) \<and>
         enable_paging c1 = (drop_bit 60 (csrs c1 SATP) = 8) \<and>
         pagetable c1 = (csrs c1 SATP AND (push_bit 44 1 - 1)) * 4096)) \<and>
   (paging_cache_ok c \<and> cpu_execute h c insn = Some (e, c') \<longrightarrow> paging_cache_ok c') \<and>
   ((insn AND 0x7f \<noteq> 0x73 \<or> drop_bit 12 insn AND 0x7 = 0 \<or>
     ucast (drop_bit 20 (insn AND 0xfff00000)) \<noteq> SATP) \<and>
    cpu_execute h c insn = Some (e, c') \<longrightarrow> cache_frame c c') \<and>
   cache_frame c (cpu_take_trap c e intr) \<and>
   (cpu_fetch h c = Some (res, c') \<longrightarrow> cache_frame c c') \<and>
   (cpu_check_pending_interrupt h c = Some (i, c') \<longrightarrow> cache_frame c c')"
proof -
  have a: "reachable h c \<longrightarrow> paging_cache_ok c"
    using reachable_paging_ok by blast
  have b: "insn AND 0x7f = 0x73 \<and> drop_bit 12 insn AND 0x7 \<in> {1, 2, 3, 5, 6, 7} \<and>
    ucast (drop_bit 20 (insn AND 0xfff00000)) = SATP \<longrightarrow>
      (\<exists>c1. cpu_execute h c insn = Some (OK, c1) \<and>
         csrs c1 SATP =
           csr_written (drop_bit 12 insn AND 0x7) (csrs c SATP)
             (((regs c)(0 := 0)) (drop_bit 15 insn AND 0x1f)) (drop_bit 15 insn AND 0x1f) \<and>
         enable_paging c1 = (drop_bit 60 (csrs c1 SATP) = 8) \<and>
         pagetable c1 = (csrs c1 SATP AND (push_bit 44 1 - 1)) * 4096)"
  proof (intro impI)
    assume h: "insn AND 0x7f = 0x73 \<and> drop_bit 12 insn AND 0x7 \<in> {1, 2, 3, 5, 6, 7} \<and>
      ucast (drop_bit 20 (insn AND 0xfff00000)) = SATP"
    then obtain c1 where "cpu_execute h c insn = Some (OK, c1)"
      and "csrs c1 SATP =
           csr_written (drop_bit 12 insn AND 0x7) (csrs c SATP)
             (((regs c)(0 := 0)) (drop_bit 15 insn AND 0x1f)) (drop_bit 15 insn AND 0x1f)"
      and "paging_cache_ok c1"
      using csr_any_satp_refresh [of insn h c] by blast
    then show "\<exists>c1. cpu_execute h c insn = Some (OK, c1) \<and>
         csrs c1 SATP =
           csr_written (drop_bit 12 insn AND 0x7) (csrs c SATP)
             (((regs c)(0 := 0)) (drop_bit 15 insn AND 0x1f)) (drop_bit 15 insn AND 0x1f) \<and>
         enable_paging c1 = (drop_bit 60 (csrs c1 SATP) = 8) \<and>
         pagetable c1 = (csrs c1 SATP AND (push_bit 44 1 - 1)) * 4096"
      by (auto simp: paging_cache_ok_def PAGE_SIZE_def)
  qed
  have c: "paging_cache_ok c \<and> cpu_execute h c insn = Some (e, c') \<longrightarrow> paging_cache_ok c'"
    using cpu_execute_paging [of c h insn] by auto
  have d: "(insn AND 0x7f \<noteq> 0x73 \<or> drop_bit 12 insn AND 0x7 = 0 \<or>
     ucast (drop_bit 20 (insn AND 0xfff00000)) \<noteq> SATP) \<and>
    cpu_execute h c insn = Some (e, c') \<longrightarrow> cache_frame c c'"
    using cpu_execute_cache_frame [of insn h c e c'] by blast
  have f: "cpu_fetch h c = Some (res, c') \<longrightarrow> cache_frame c c'"
    using fetch_cache [of c h] by auto
  have g: "cpu_check_pending_interrupt h c = Some (i, c') \<longrightarrow> cache_frame c c'"
    using check_pending_cache [of c h] by auto
  from a b c d f g take_trap_cache [of c e intr] show ?thesis by blast
qed

text \<open>
  \<open>csrrw x0, satp, x5\<close> is 0x18029073, with \<open>x5\<close> holding mode 8 and root page
  0x80000; \<open>csrrwi x0, satp, 0\<close> is 0x18005073 and switches paging off again.
\<close>

theorem paging_cache_follows_satp_witness:
  "(\<exists>c1 c2. cpu_execute host0 (cpu0\<lparr>regs := (regs cpu0)(5 := 0x8000000000080000)\<rparr>) 0x18029073 =
            Some (OK, c1) \<and>
         csrs c1 SATP = 0x8000000000080000 \<and> enable_paging c1 \<and> pagetable c1 = 0x80000000 \<and>
         cpu_execute host0 c1 0x18005073 = Some (OK, c2) \<and>
         csrs c2 SATP = 0 \<and> \<not> enable_paging c2 \<and> pagetable c2 = 0) \<and>
   paging_cache_ok cpu0 \<and>
   cache_frame cpu0 (cpu_take_trap cpu0 11 NONE)"
proof -
  let ?c = "cpu0\<lparr>regs := (regs cpu0)(5 := 0x8000000000080000)\<rparr>"
  have r: "reachable host0 cpu0"
    by (rule reach_new [of "[]" "\<lambda>_. 0" 0 "[]"])
      (simp add: cpu_new_def ram_new_def cpu0_def bus0_def)
  have dec: "(0x18029073 :: u64) AND 0x7f = 0x73 \<and>
      drop_bit 12 (0x18029073 :: u64) AND 0x7 \<in> {1, 2, 3, 5, 6, 7} \<and>
      (ucast (drop_bit 20 ((0x18029073 :: u64) AND 0xfff00000)) :: u16) = SATP"
    by (simp add: SATP_def)
  have rs: "csr_written (drop_bit 12 (0x18029073 :: u64) AND 0x7) (csrs ?c SATP)
      (((regs ?c)(0 := 0)) (drop_bit 15 (0x18029073 :: u64) AND 0x1f))
      (drop_bit 15 (0x18029073 :: u64) AND 0x1f) = 0x8000000000080000"
    by (simp add: cpu0_def csr_written_def)
  have "\<exists>c1. cpu_execute host0 ?c 0x18029073 = Some (OK, c1) \<and>
         csrs c1 SATP =
           csr_written (drop_bit 12 (0x18029073 :: u64) AND 0x7) (csrs ?c SATP)
             (((regs ?c)(0 := 0)) (drop_bit 15 (0x18029073 :: u64) AND 0x1f))
             (drop_bit 15 (0x18029073 :: u64) AND 0x1f) \<and>
         enable_paging c1 = (drop_bit 60 (csrs c1 SATP) = 8) \<and>
         pagetable c1 = (csrs c1 SATP AND (push_bit 44 1 - 1)) * 4096"
    using paging_cache_follows_satp [where h = host0 and c = ?c and insn = "0x18029073",
        THEN conjunct2, THEN conjunct1] dec
    by blast
  then obtain c1 where x: "cpu_execute host0 ?c 0x18029073 = Some (OK, c1)"
    and s: "csrs c1 SATP = 0x8000000000080000"
    and en: "enable_paging c1 = (drop_bit 60 (csrs c1 SATP) = 8)"
    and pt: "pagetable c1 = (csrs c1 SATP AND (push_bit 44 1 - 1)) * 4096"
    unfolding rs by blast
  have dec2: "(0x18005073 :: u64) AND 0x7f = 0x73 \<and>
      drop_bit 12 (0x18005073 :: u64) AND 0x7 \<in> {1, 2, 3, 5, 6, 7} \<and>
      (ucast (drop_bit 20 ((0x18005073 :: u64) AND 0xfff00000)) :: u16) = SATP"
    by (simp add: SATP_def)
  have rs2: "csr_written (drop_bit 12 (0x18005073 :: u64) AND 0x7) (csrs c1 SATP)
      (((regs c1)(0 := 0)) (drop_bit 15 (0x18005073 :: u64) AND 0x1f))
      (drop_bit 15 (0x18005073 :: u64) AND 0x1f) = 0"
    by (simp add: csr_written_def)
  have "\<exists>c2. cpu_execute host0 c1 0x18005073 = Some (OK, c2) \<and>
         csrs c2 SATP =
           csr_written (drop_bit 12 (0x18005073 :: u64) AND 0x7) (csrs c1 SATP)
             (((regs c1)(0 := 0)) (drop_bit 15 (0x18005073 :: u64) AND 0x1f))
             (drop_bit 15 (0x18005073 :: u64) AND 0x1f) \<and>
         enable_paging c2 = (drop_bit 60 (csrs c2 SATP) = 8) \<and>
         pagetable c2 = (csrs c2 SATP AND (push_bit 44 1 - 1)) * 4096"
    using paging_cache_follows_satp [where h = host0 and c = c1 and insn = "0x18005073",
        THEN conjunct2, THEN conjunct1] dec2
    by blast
  then obtain c2 where x2: "cpu_execute host0 c1 0x18005073 = Some (OK, c2)"
    and s2: "csrs c2 SATP = 0"
    and en2: "enable_paging c2 = (drop_bit 60 (csrs c2 SATP) = 8)"
    and pt2: "pagetable c2 = (csrs c2 SATP AND (push_bit 44 1 - 1)) * 4096"
    unfolding rs2 by blast
  have first: "\<exists>c1 c2. cpu_execute host0 ?c 0x18029073 = Some (OK, c1) \<and>
         csrs c1 SATP = 0x8000000000080000 \<and> enable_paging c1 \<and> pagetable c1 = 0x80000000 \<and>
         cpu_execute host0 c1 0x18005073 = Some (OK, c2) \<and>
         csrs c2 SATP = 0 \<and> \<not> enable_paging c2 \<and> pagetable c2 = 0"
    using x s en pt x2 s2 en2 pt2 by simp
  have ok: "paging_cache_ok cpu0"
    using paging_cache_follows_satp [where h = host0 and c = cpu0, THEN conjunct1] r by blast
  have tr: "cache_frame cpu0 (cpu_take_trap cpu0 11 NONE)"
    using paging_cache_follows_satp [where c = cpu0 and e = 11 and intr = NONE] by blast
  from first ok tr show ?thesis by blast
qed

section \<open>Interrupt selection\<close>

lemma select_pending_spec: "select_pending c = select_spec c"
  by (simp add: select_pending_def select_spec_def irq_priority_def cpu_load_csr_def
      cpu_store_csr_def csr_defs Let_def)

text \<open>
  Claim C4. When the check is not gated off (not Machine mode with \<open>mstatus.MIE\<close>
  clear, not Supervisor mode with \<open>sstatus.SIE\<close> clear), \<open>cpu_check_pending_interrupt\<close>
  polls the devices and then does what the specification words: with
  \<open>pending = mie & mip\<close> it returns the first interrupt of the order MEIP, MSIP, MTIP,
  SEIP, SSIP, STIP whose bit is in \<open>pending\<close> and clears that bit, and only that bit,
  in \<open>mip\<close>; with no such bit it returns \<open>NONE\<close> and leaves the state as the poll
  left it. When the block-device transfer of the poll ends the process, nothing is
  returned.
\<close>

theorem check_pending_priority_order:
  "\<not> (mode c = MACHINE \<and> drop_bit 3 (csrs c MSTATUS) AND 1 = 0) \<Longrightarrow>
   \<not> (mode c = SUPERVISOR \<and> drop_bit 1 (csrs c SSTATUS) AND 1 = 0) \<Longrightarrow>
   cpu_check_pending_interrupt h c =
     (case poll_devices h c of None \<Rightarrow> None | Some c1 \<Rightarrow> Some (select_spec c1))"
  by (cases "poll_devices h c")
    (auto simp add: cpu_check_pending_interrupt_def cpu_load_csr_def csr_defs select_pending_spec)

lemma poll_devices_quiet:
  "\<not> interrupting (uart (bus c)) \<Longrightarrow> notify (disk (bus c)) = - 1 \<Longrightarrow>
   poll_devices h c =
     Some (c\<lparr>bus := (bus c)\<lparr>uart := (uart (bus c))\<lparr>interrupting := False\<rparr>,
                           disk := disk (bus c)\<rparr>\<rparr>)"
  by (simp add: poll_devices_def uart_is_interrupting_def disk_is_interrupting_def Let_def)

lemma poll_devices_uart:
  "interrupting (uart (bus c)) \<Longrightarrow> \<exists>c1. poll_devices h c = Some c1 \<and>
     sclaim (plic (bus c1)) = UART_IRQ \<and> csrs c1 MIP = csrs c MIP OR MIP_SEIP"
  by (simp add: poll_devices_def uart_is_interrupting_def Let_def publish_irq_def
      bus_store_def RANGE_CHECK_def mmio_defs plic_store_def cpu_store_csr_def
      cpu_load_csr_def csr_defs)

text \<open>
  In \<open>cpu_irq\<close> the bits MSIP, MTIP and SEIP are pending and enabled: MSIP wins.
\<close>

theorem check_pending_priority_order_witness:
  "map_option fst (cpu_check_pending_interrupt host0 cpu_irq) = Some MACHINE_SOFTWARE_INTERRUPT \<and>
   map_option (\<lambda>(i, c). csrs c MIP) (cpu_check_pending_interrupt host0 cpu_irq) = Some 0x280"
proof -
  have m: "\<not> (mode cpu_irq = MACHINE \<and> drop_bit 3 (csrs cpu_irq MSTATUS) AND 1 = 0)"
    by (simp add: cpu_irq_def cpu0_def)
  have s: "\<not> (mode cpu_irq = SUPERVISOR \<and> drop_bit 1 (csrs cpu_irq SSTATUS) AND 1 = 0)"
    by (simp add: cpu_irq_def cpu0_def)
  have q: "\<not> interrupting (uart (bus cpu_irq))" "notify (disk (bus cpu_irq)) = - 1"
    by (simp_all add: cpu_irq_def cpu0_def bus0_def bus_new_def uart_new_def disk_new_def Let_def)
  have "cpu_check_pending_interrupt host0 cpu_irq =
      Some (select_spec (cpu_irq\<lparr>bus := (bus cpu_irq)\<lparr>uart :=
        (uart (bus cpu_irq))\<lparr>interrupting := False\<rparr>, disk := disk (bus cpu_irq)\<rparr>\<rparr>))"
    using check_pending_priority_order [OF m s, of host0]
    by (simp add: poll_devices_quiet [OF q])
  then show ?thesis
    by (simp add: select_spec_def irq_priority_def mip_defs interrupt_defs csr_defs
        cpu_irq_def cpu0_def)
qed

text \<open>What the poll publishes: the claim register and \<open>mip.SEIP\<close>.\<close>

lemma publish_irq_eq:
  "publish_irq c irq =
     Some (c\<lparr>bus := (bus c)\<lparr>plic := (plic (bus c))\<lparr>sclaim := irq\<rparr>\<rparr>,
             csrs := (csrs c)(MIP := csrs c MIP OR MIP_SEIP)\<rparr>)"
  by (simp add: publish_irq_def bus_store_def RANGE_CHECK_def mmio_defs plic_store_def
      cpu_store_csr_def cpu_load_csr_def csr_defs Let_def)

text \<open>The transfer of length 0 that \<open>cpu_user_disk\<close> asks for.\<close>

lemma idle_disk_access:
  "bus_disk_access host0 (bus0\<lparr>disk := (disk bus0)\<lparr>notify := - 1\<rparr>\<rparr>) =
     Some (bus0\<lparr>disk := (disk bus0)\<lparr>notify := - 1\<rparr>\<rparr>)"
  by (simp add: bus_disk_access_def bus_load_u32_def bus_load_def bus_store_def
      RANGE_CHECK_def mmio_defs disk_load_def disk_store_def bus0_def bus_new_def disk_new_def
      host0_def sint_low_minus_one exception_defs)

text \<open>
  Claim C10. In User mode \<open>cpu_check_pending_interrupt\<close> never takes an early exit,
  whatever \<open>mstatus\<close> and \<open>sstatus\<close> hold. When the UART's interrupting flag is up,
  the flag is cleared, 10 is stored in the PLIC claim register and \<open>SEIP\<close> is set in
  \<open>mip\<close>. Otherwise, when the block device's \<open>notify\<close> is not -1, \<open>notify\<close> is
  reset to -1 and the transfer is carried out; if that does not end the process, 1 is
  stored in the claim register and \<open>SEIP\<close> is set in \<open>mip\<close>. Otherwise the state is
  left as it is. In each case the result is then selected from \<open>mie & mip\<close> in the
  order MEIP, MSIP, MTIP, SEIP, SSIP, STIP. The early exit is taken in Machine mode
  when bit 3 (MIE) of \<open>mstatus\<close> is clear and in Supervisor mode when bit 1 (SIE) of
  \<open>sstatus\<close> is clear: then the result is \<open>NONE\<close> and nothing is polled or changed.
\<close>

theorem user_mode_not_gated:
  "(mode c = USER \<longrightarrow>
     (interrupting (uart (bus c)) \<longrightarrow>
        cpu_check_pending_interrupt h c =
          Some (select_spec
            (c\<lparr>bus := (bus c)\<lparr>uart := (uart (bus c))\<lparr>interrupting := False\<rparr>,
                              plic := (plic (bus c))\<lparr>sclaim := UART_IRQ\<rparr>\<rparr>,
               csrs := (csrs c)(MIP := csrs c MIP OR MIP_SEIP)\<rparr>))) \<and>
     (\<not> interrupting (uart (bus c)) \<and> notify (disk (bus c)) \<noteq> - 1 \<longrightarrow>
        cpu_check_pending_interrupt h c =
          (case bus_disk_access h ((bus c)\<lparr>disk := (disk (bus c))\<lparr>notify := - 1\<rparr>\<rparr>) of
             None \<Rightarrow> None
           | Some b3 \<Rightarrow>
               Some (select_spec
                 (c\<lparr>bus := b3\<lparr>plic := (plic b3)\<lparr>sclaim := DISK_IRQ\<rparr>\<rparr>,
                    csrs := (csrs c)(MIP := csrs c MIP OR MIP_SEIP)\<rparr>)))) \<and>
     (\<not> interrupting (uart (bus c)) \<and> notify (disk (bus c)) = - 1 \<longrightarrow>
        cpu_check_pending_interrupt h c = Some (select_spec c))) \<and>
   (mode c = MACHINE \<and> drop_bit 3 (csrs c MSTATUS) AND 1 = 0 \<longrightarrow>
      cpu_check_pending_interrupt h c = Some (NONE, c)) \<and>
   (mode c = SUPERVISOR \<and> drop_bit 1 (csrs c SSTATUS) AND 1 = 0 \<longrightarrow>
      cpu_check_pending_interrupt h c = Some (NONE, c))"
proof -
  have a: "cpu_check_pending_interrupt h c =
        Some (select_spec
          (c\<lparr>bus := (bus c)\<lparr>uart := (uart (bus c))\<lparr>interrupting := False\<rparr>,
                            plic := (plic (bus c))\<lparr>sclaim := UART_IRQ\<rparr>\<rparr>,
             csrs := (csrs c)(MIP := csrs c MIP OR MIP_SEIP)\<rparr>))"
    if "mode c = USER" and "interrupting (uart (bus c))"
    using that
    by (simp add: cpu_check_pending_interrupt_def poll_devices_def uart_is_interrupting_def
        Let_def publish_irq_eq select_pending_spec)
  have b: "cpu_check_pending_interrupt h c =
        (case bus_disk_access h ((bus c)\<lparr>disk := (disk (bus c))\<lparr>notify := - 1\<rparr>\<rparr>) of
           None \<Rightarrow> None
         | Some b3 \<Rightarrow>
             Some (select_spec
               (c\<lparr>bus := b3\<lparr>plic := (plic b3)\<lparr>sclaim := DISK_IRQ\<rparr>\<rparr>,
                  csrs := (csrs c)(MIP := csrs c MIP OR MIP_SEIP)\<rparr>)))"
    if "mode c = USER" and "\<not> interrupting (uart (bus c))" and "notify (disk (bus c)) \<noteq> - 1"
  proof -
    have f: "(bus c)\<lparr>uart := (uart (bus c))\<lparr>interrupting := False\<rparr>\<rparr> = bus c"
      using that(2) by simp
    show ?thesis
      using that
      by (cases "bus_disk_access h ((bus c)\<lparr>disk := (disk (bus c))\<lparr>notify := - 1\<rparr>\<rparr>)")
        (simp_all add: cpu_check_pending_interrupt_def poll_devices_def
          uart_is_interrupting_def disk_is_interrupting_def Let_def f publish_irq_eq
          select_pending_spec)
  qed
  have d: "cpu_check_pending_interrupt h c = Some (select_spec c)"
    if "mode c = USER" and "\<not> interrupting (uart (bus c))" and "notify (disk (bus c)) = - 1"
  proof -
    have f: "(bus c)\<lparr>uart := (uart (bus c))\<lparr>interrupting := False\<rparr>\<rparr> = bus c"
      using that(2) by simp
    show ?thesis
      using that
      by (simp add: cpu_check_pending_interrupt_def poll_devices_def
          uart_is_interrupting_def disk_is_interrupting_def Let_def f select_pending_spec)
  qed
  have m: "cpu_check_pending_interrupt h c = Some (NONE, c)"
    if "mode c = MACHINE" and "drop_bit 3 (csrs c MSTATUS) AND 1 = 0"
    using that by (simp add: cpu_check_pending_interrupt_def cpu_load_csr_def csr_defs)
  have s: "cpu_check_pending_interrupt h c = Some (NONE, c)"
    if "mode c = SUPERVISOR" and "drop_bit 1 (csrs c SSTATUS) AND 1 = 0"
    using that by (simp add: cpu_check_pending_interrupt_def cpu_load_csr_def csr_defs)
  from a b d m s show ?thesis by blast
qed

text \<open>
  \<open>cpu_user\<close> and \<open>cpu_user_disk\<close> have \<open>mstatus = sstatus = mip = 0\<close>; the poll
  sets \<open>SEIP\<close> and the supervisor external interrupt is delivered, with claim 10 for
  the UART and claim 1 for the block device. The same state as \<open>cpu_user\<close> in Machine
  or Supervisor mode is returned untouched, the UART's flag still up.
\<close>

theorem user_mode_not_gated_witness:
  "csrs cpu_user MSTATUS = 0 \<and> csrs cpu_user SSTATUS = 0 \<and> csrs cpu_user MIP = 0 \<and>
   map_option fst (cpu_check_pending_interrupt host0 cpu_user) =
     Some SUPERVISOR_EXTERNAL_INTERRUPT \<and>
   map_option (\<lambda>(i, c). sclaim (plic (bus c))) (cpu_check_pending_interrupt host0 cpu_user) =
     Some 10 \<and>
   map_option (\<lambda>(i, c). interrupting (uart (bus c)))
     (cpu_check_pending_interrupt host0 cpu_user) = Some False \<and>
   csrs cpu_user_disk MSTATUS = 0 \<and> csrs cpu_user_disk SSTATUS = 0 \<and>
   map_option fst (cpu_check_pending_interrupt host0 cpu_user_disk) =
     Some SUPERVISOR_EXTERNAL_INTERRUPT \<and>
   map_option (\<lambda>(i, c). sclaim (plic (bus c)))
     (cpu_check_pending_interrupt host0 cpu_user_disk) = Some 1 \<and>
   map_option (\<lambda>(i, c). notify (disk (bus c)))
     (cpu_check_pending_interrupt host0 cpu_user_disk) = Some (- 1) \<and>
   cpu_check_pending_interrupt host0 (cpu_user\<lparr>mode := MACHINE\<rparr>) =
     Some (NONE, cpu_user\<lparr>mode := MACHINE\<rparr>) \<and>
   cpu_check_pending_interrupt host0 (cpu_user\<lparr>mode := SUPERVISOR\<rparr>) =
     Some (NONE, cpu_user\<lparr>mode := SUPERVISOR\<rparr>)"
proof -
  have u: "mode cpu_user = USER" by (simp add: cpu_user_def)
  have i: "interrupting (uart (bus cpu_user))" by (simp add: cpu_user_def)
  have first: "csrs cpu_user MSTATUS = 0 \<and> csrs cpu_user SSTATUS = 0 \<and> csrs cpu_user MIP = 0 \<and>
     map_option fst (cpu_check_pending_interrupt host0 cpu_user) =
       Some SUPERVISOR_EXTERNAL_INTERRUPT \<and>
     map_option (\<lambda>(i, c). sclaim (plic (bus c))) (cpu_check_pending_interrupt host0 cpu_user) =
       Some 10 \<and>
     map_option (\<lambda>(i, c). interrupting (uart (bus c)))
       (cpu_check_pending_interrupt host0 cpu_user) = Some False"
    using user_mode_not_gated [where c = cpu_user and h = host0, THEN conjunct1, rule_format,
        OF u, THEN conjunct1, rule_format, OF i]
    by (simp add: select_spec_def irq_priority_def mip_defs interrupt_defs csr_defs
        cpu_user_def cpu0_def UART_IRQ_def)
  have ud: "mode cpu_user_disk = USER" by (simp add: cpu_user_disk_def)
  have d: "\<not> interrupting (uart (bus cpu_user_disk)) \<and> notify (disk (bus cpu_user_disk)) \<noteq> - 1"
    by (simp add: cpu_user_disk_def bus0_def bus_new_def uart_new_def Let_def)
  have b: "(bus cpu_user_disk)\<lparr>disk := (disk (bus cpu_user_disk))\<lparr>notify := - 1\<rparr>\<rparr> =
      bus0\<lparr>disk := (disk bus0)\<lparr>notify := - 1\<rparr>\<rparr>"
    by (simp add: cpu_user_disk_def)
  have second: "csrs cpu_user_disk MSTATUS = 0 \<and> csrs cpu_user_disk SSTATUS = 0 \<and>
     map_option fst (cpu_check_pending_interrupt host0 cpu_user_disk) =
       Some SUPERVISOR_EXTERNAL_INTERRUPT \<and>
     map_option (\<lambda>(i, c). sclaim (plic (bus c)))
       (cpu_check_pending_interrupt host0 cpu_user_disk) = Some 1 \<and>
     map_option (\<lambda>(i, c). notify (disk (bus c)))
       (cpu_check_pending_interrupt host0 cpu_user_disk) = Some (- 1)"
    using user_mode_not_gated [where c = cpu_user_disk and h = host0, THEN conjunct1,
        rule_format, OF ud, THEN conjunct2, THEN conjunct1, rule_format, OF d]
    unfolding b idle_disk_access
    by (simp add: select_spec_def irq_priority_def mip_defs interrupt_defs csr_defs
        cpu_user_disk_def cpu0_def DISK_IRQ_def)
  have mm: "mode (cpu_user\<lparr>mode := MACHINE\<rparr>) = MACHINE \<and>
      drop_bit 3 (csrs (cpu_user\<lparr>mode := MACHINE\<rparr>) MSTATUS) AND 1 = 0"
    by (simp add: cpu_user_def csr_defs)
  have third: "cpu_check_pending_interrupt host0 (cpu_user\<lparr>mode := MACHINE\<rparr>) =
      Some (NONE, cpu_user\<lparr>mode := MACHINE\<rparr>)"
    using user_mode_not_gated [where c = "cpu_user\<lparr>mode := MACHINE\<rparr>" and h = host0,
        THEN conjunct2, THEN conjunct1, rule_format, OF mm] .
  have ms: "mode (cpu_user\<lparr>mode := SUPERVISOR\<rparr>) = SUPERVISOR \<and>
      drop_bit 1 (csrs (cpu_user\<lparr>mode := SUPERVISOR\<rparr>) SSTATUS) AND 1 = 0"
    by (simp add: cpu_user_def csr_defs)
  have fourth: "cpu_check_pending_interrupt host0 (cpu_user\<lparr>mode := SUPERVISOR\<rparr>) =
      Some (NONE, cpu_user\<lparr>mode := SUPERVISOR\<rparr>)"
    using user_mode_not_gated [where c = "cpu_user\<lparr>mode := SUPERVISOR\<rparr>" and h = host0,
        THEN conjunct2, THEN conjunct2, rule_format, OF ms] .
  from first second third fourth show ?thesis by blast
qed

section \<open>The UART line-status register\<close>














section \<open>Where the code departs from its documented intent\<close>

text \<open>What the trap controller does with \<open>sstatus.SPP\<close> on a delegated trap.\<close>

lemma spp_bit: "bit ((x::u64) OR push_bit 8 1) 8" "\<not> bit ((x::u64) AND NOT (push_bit 8 1)) 8"
  by (simp_all add: bit_simps)

lemma supervisor_trap_records_spp:
  assumes "mode_val (mode c) \<le> mode_val SUPERVISOR"
    and "drop_bit (unat (ucast (if intr \<noteq> NONE then push_bit 63 1 OR (word_of_int intr :: u64)
                                 else word_of_int e) :: u32))
           (csrs c MEDELEG) AND 1 \<noteq> 0"
  shows "mode (cpu_take_trap c e intr) = SUPERVISOR \<and>
         bit (csrs (cpu_take_trap c e intr) SSTATUS) 8 = (mode c \<noteq> USER)"
  using assms
  by (simp add: cpu_take_trap_def Let_def cpu_store_csr_def cpu_load_csr_def csr_defs
      bit_simps)

lemma mpp_cleared: "(((x::u64) AND a) AND 9007199254740988) AND 3 = 0"
  by (simp add: and.assoc)

text \<open>
  Claim C2 fails on the code. A trap delivered in Machine mode ends with
  \<open>mstatus & ~(3 << 11)\<close>: the MPP field is 0 afterwards, whatever mode the hart was in.
  Taken from Machine mode (an \<open>ecall\<close>, cause 11), the claim requires MPP = 3.
\<close>

theorem machine_trap_clears_mpp:
  "mode (cpu_take_trap (c\<lparr>mode := MACHINE\<rparr>) e intr) = MACHINE \<and>
   drop_bit 11 (csrs (cpu_take_trap (c\<lparr>mode := MACHINE\<rparr>) e intr) MSTATUS) AND 3 = 0"
  by (simp add: cpu_take_trap_def Let_def cpu_store_csr_def cpu_load_csr_def csr_defs mpp_cleared)

text \<open>
  Claim C3 fails on the code. \<open>RANGE_CHECK\<close> looks at the low 32 bits only, so the
  address 0x102000000, which is above \<open>RAM_BASE\<close> and in no device range, is dispatched
  to the CLINT: a 64-bit load returns 0 and a 64-bit store is dropped.
\<close>

theorem bus_high_address_hits_clint:
  "RAM_BASE \<le> 0x102000000 \<and> \<not> (CLINT_BASE \<le> 0x102000000 \<and> 0x102000000 < CLINT_BASE + CLINT_SIZE) \<and>
   bus_load h b 0x102000000 64 = Some (Inr 0, b) \<and>
   bus_store b 0x102000000 64 v = Some (OK, b)"
  by (simp add: bus_load_def bus_store_def RANGE_CHECK_def mmio_defs clint_load_def clint_store_def)

text \<open>The zero-divisor and overflow cases of \<open>divw\<close>, \<open>divuw\<close> and \<open>remw\<close> that do sign-extend.\<close>

lemma divw_family_as_claimed:
  "op_3b 0x4 0x01 x 0 = Some (Inr (sext32 0xFFFFFFFF))"
  "op_3b 0x5 0x01 x 0 = Some (Inr (sext32 0xFFFFFFFF))"
  "op_3b 0x4 0x01 0x80000000 0xFFFFFFFF = Some (Inr (sext32 0x80000000))"
  "op_3b 0x6 0x01 0x80000000 0xFFFFFFFF = Some (Inr 0)"
  by (simp_all add: op_3b_def sext32_def UINT64_MAX_def INT32_MIN_def)

text \<open>
  Claim C6 fails on the code. With \<open>cpu->regs[rs2] = 0\<close>, \<open>remw\<close> (funct3 6) and
  \<open>remuw\<close> (funct3 7) copy all 64 bits of \<open>cpu->regs[rs1]\<close>: for 0x100000005 the
  result is 0x100000005, and the sign-extension of its low 32 bits is 5.
\<close>

theorem remw_by_zero_keeps_upper_bits:
  "op_3b 0x6 0x01 0x100000005 0 = Some (Inr 0x100000005) \<and>
   op_3b 0x7 0x01 0x100000005 0 = Some (Inr 0x100000005) \<and>
   sext32 0x100000005 = 5"
  by (simp add: op_3b_def sext32_def)

text \<open>The other cases of \<open>kbd_load\<close>: a wrong size, and an empty queue.\<close>

lemma kbd_load_other_cases:
  "sz \<noteq> 32 \<Longrightarrow> kbd_load h q addr sz = (Inl LOAD_ACCESS_FAULT, q)"
  "kbd_load h [] (KBD_GET h) 32 = (Inr 0, [])"
  by (simp_all add: kbd_load_def key_take_def)

text \<open>
  Claim C7 fails on the code. A 32-bit load at \<open>KBD_GET\<close> with a key queued takes the
  key off the queue and returns 0: the \<open>default\<close> branch overwrites the result.
\<close>

theorem kbd_load_returns_zero:
  "kbd_load h (k # q) (KBD_GET h) 32 = (Inr 0, q)"
  by (simp add: kbd_load_def key_take_def)

end
